theory Spec2Isabelle
  imports Complex_Main "HOL-Library.AList" "HOL-Library.Char_ord" "HOL-Library.List_Lexorder"
begin

section \<open>Shared types (types/index.ts)\<close>

text \<open>
  A JavaScript \<open>number\<close> is modelled as a \<open>real\<close>: arithmetic is exact, and the
  values \<open>NaN\<close> and \<open>Infinity\<close> do not exist. Where the source divides, HOL's
  \<open>x / 0 = 0\<close> stands in for what JavaScript would produce; the theorems that settle a
  property and read a quotient state the divisor to be non-zero, or evaluate it at
  concrete numbers.

  A template literal is a list of fragments: literal text, and the interpolation of a
  number (whose decimal rendering is left symbolic).
\<close>

datatype frag = Txt string | Num real | Fixed real nat

type_synonym template = "frag list"

datatype Side = BUY | SELL

text \<open>The order types of the data model; the engine only ever sends \<open>GTC\<close>.\<close>

datatype OrderType = GTC | GTD

record Position =
  tokenId_p :: string
  market_p :: string
  size_p :: real
  avgEntryPrice :: real
  currentPrice :: real
  unrealizedPnl :: real
  realizedPnl :: real
  side_p :: Side

record OrderRequest =
  tokenId_o :: string
  side_o :: Side
  price_o :: real
  size_o :: real
  type_o :: OrderType
  expiration :: "real option"

record OrderResult =
  success :: bool
  orderId_r :: "template option"
  error_r :: "template option"
  filledSize :: "real option"
  avgFillPrice :: "real option"

record RiskLimits =
  maxPositionSize :: real
  maxTotalExposure :: real
  maxLossPerTrade :: real
  maxDailyLoss :: real
  maxOpenOrders :: real

datatype EventType =
    orderbook_update | trade_executed | order_filled | order_cancelled | position_changed
  | strategy_signal | risk_breach | market_update | market_groups_updated

record MarketGroup =
  conditionId :: string
  tokenIds :: "string list"

text \<open>
  The payloads that the components modelled here hand to \<open>emit\<close>, and an emission:
  the event type with its payload.
\<close>

datatype EventData =
    RiskBreachData string int
  | OrderFilledData template OrderRequest OrderResult
  | PositionChangedData string Position
  | MarketGroupsData "MarketGroup list"

record Emission =
  type_e :: EventType
  data_e :: EventData

text \<open>
  The clock read by \<open>new Date()\<close> and \<open>Date.now()\<close>: milliseconds since the epoch, and
  the calendar day \<open>toISOString().split("T")[0]\<close> of the same instant.
\<close>

record Clock =
  nowMs :: int
  isoDay :: string

section \<open>Store (core/store.ts)\<close>

text \<open>
  The three tables, each a list of rows in row order. A row of \<open>orders\<close> is an order
  request with its id and status; a row of \<open>trades\<close> keeps the columns the daily PnL
  query reads, \<open>matchDay\<close> being \<open>DATE(match_time)\<close>.
\<close>

record StoredOrder = OrderRequest +
  orderId :: template
  status :: string

record TradeRow =
  side_t :: string
  size_t :: real
  price_t :: real
  matchDay :: string

record Store =
  positions :: "Position list"
  orders :: "StoredOrder list"
  trades :: "TradeRow list"

definition savePosition :: "Position \<Rightarrow> Store \<Rightarrow> Store" where
  \<comment> \<open>INSERT OR REPLACE on the primary key \<open>token_id\<close>\<close>
  "savePosition position st =
     st\<lparr>positions := filter (\<lambda>q. tokenId_p q \<noteq> tokenId_p position) (positions st) @ [position]\<rparr>"

definition getPosition :: "Store \<Rightarrow> string \<Rightarrow> Position option" where
  "getPosition st tokenId = find (\<lambda>q. tokenId_p q = tokenId) (positions st)"

definition getAllPositions :: "Store \<Rightarrow> Position list" where
  "getAllPositions st = filter (\<lambda>q. size_p q \<noteq> 0) (positions st)"

definition saveOrder :: "StoredOrder \<Rightarrow> Store \<Rightarrow> Store" where
  "saveOrder order st =
     st\<lparr>orders := filter (\<lambda>q. orderId q \<noteq> orderId order) (orders st) @ [order]\<rparr>"

definition updateOrderStatus :: "template \<Rightarrow> string \<Rightarrow> Store \<Rightarrow> Store" where
  "updateOrderStatus oid s st =
     st\<lparr>orders := map (\<lambda>q. if orderId q = oid then q\<lparr>status := s\<rparr> else q) (orders st)\<rparr>"

definition getOpenOrders :: "Store \<Rightarrow> StoredOrder list" where
  "getOpenOrders st = filter (\<lambda>q. status q = ''pending'' \<or> status q = ''open'') (orders st)"

definition getDailyPnl :: "Store \<Rightarrow> string \<Rightarrow> real" where
  "getDailyPnl st dateStr =
     sum_list (map (\<lambda>t. if side_t t = ''BUY'' then - (size_t t * price_t t) else size_t t * price_t t)
                   (filter (\<lambda>t. matchDay t = dateStr) (trades st)))"

section \<open>Risk manager and order manager state\<close>

text \<open>
  The risk manager and the order manager share one store and one event bus. The bus is
  seen here from the emitting side: \<open>emitted\<close> lists the events handed to \<open>emit\<close>, in
  order. What \<open>emit\<close> does with the subscribers is the subject of the event bus section.
\<close>

record System =
  store :: Store
  limits :: RiskLimits
  halted :: bool
  haltReason :: "string option"
  emitted :: "Emission list"

record CheckResult =
  allowed :: bool
  reason :: "template option"

definition emit_log :: "EventType \<Rightarrow> EventData \<Rightarrow> System \<Rightarrow> System" where
  "emit_log ty d sys = sys\<lparr>emitted := emitted sys @ [\<lparr>type_e = ty, data_e = d\<rparr>]\<rparr>"

subsection \<open>RiskManager (services/risk-manager.ts)\<close>

definition getExposure_total :: "System \<Rightarrow> real" where
  "getExposure_total sys =
     sum_list (map (\<lambda>pos. \<bar>size_p pos * currentPrice pos\<bar>) (getAllPositions (store sys)))
     + sum_list (map (\<lambda>order. price_o order * size_o order) (getOpenOrders (store sys)))"

definition halt :: "Clock \<Rightarrow> string \<Rightarrow> System \<Rightarrow> System" where
  "halt clk r sys =
     emit_log risk_breach (RiskBreachData r (nowMs clk)) (sys\<lparr>halted := True, haltReason := Some r\<rparr>)"

definition resume :: "System \<Rightarrow> System" where
  "resume sys = sys\<lparr>halted := False, haltReason := None\<rparr>"

definition isHalted :: "System \<Rightarrow> bool" where
  "isHalted sys = halted sys"

definition haltedText :: "string option \<Rightarrow> template" where
  \<comment> \<open>the template \<open>Trading halted: ${this.haltReason}\<close>\<close>
  "haltedText r = [Txt ''Trading halted: '', Txt (case r of None \<Rightarrow> ''undefined'' | Some s \<Rightarrow> s)]"

definition checkOrder :: "Clock \<Rightarrow> OrderRequest \<Rightarrow> System \<Rightarrow> CheckResult \<times> System" where
  "checkOrder clk order sys =
     (if halted sys then (\<lparr>allowed = False, reason = Some (haltedText (haltReason sys))\<rparr>, sys)
      else
        let orderValue = price_o order * size_o order in
        if orderValue > maxPositionSize (limits sys) then
          (\<lparr>allowed = False,
            reason = Some [Txt ''Order value '', Num orderValue,
                           Txt '' exceeds max position size '', Num (maxPositionSize (limits sys))]\<rparr>, sys)
        else if getExposure_total sys + orderValue > maxTotalExposure (limits sys) then
          (\<lparr>allowed = False,
            reason = Some [Txt ''Would exceed max total exposure '',
                           Num (maxTotalExposure (limits sys))]\<rparr>, sys)
        else if real (length (getOpenOrders (store sys))) \<ge> maxOpenOrders (limits sys) then
          (\<lparr>allowed = False,
            reason = Some [Txt ''Max open orders ('', Num (maxOpenOrders (limits sys)),
                           Txt '') reached'']\<rparr>, sys)
        else if getDailyPnl (store sys) (isoDay clk) < - maxDailyLoss (limits sys) then
          (\<lparr>allowed = False,
            reason = Some [Txt ''Daily loss limit ('', Num (maxDailyLoss (limits sys)),
                           Txt '') exceeded'']\<rparr>,
           halt clk ''Daily loss limit exceeded'' sys)
        else (\<lparr>allowed = True, reason = None\<rparr>, sys))"

text \<open>A run of admission checks, one after the other, on the state the previous one left.\<close>

fun checkOrders :: "(Clock \<times> OrderRequest) list \<Rightarrow> System \<Rightarrow> CheckResult list \<times> System" where
  "checkOrders [] sys = ([], sys)"
| "checkOrders ((clk, order) # rest) sys =
     (let (r, sys') = checkOrder clk order sys;
          (rs, sys'') = checkOrders rest sys'
      in (r # rs, sys''))"

subsection \<open>OrderManager (services/order-manager.ts)\<close>

definition updatePosition :: "string \<Rightarrow> Side \<Rightarrow> real \<Rightarrow> real \<Rightarrow> System \<Rightarrow> System" where
  "updatePosition tokenId side sz price sys =
     (let existing = getPosition (store sys) tokenId;
          opened = \<lparr>tokenId_p = tokenId, market_p = '''',
                    size_p = (if side = BUY then sz else - sz),
                    avgEntryPrice = price, currentPrice = price,
                    unrealizedPnl = 0, realizedPnl = 0, side_p = side\<rparr>;
          newPosition =
            (case existing of
               None \<Rightarrow> opened
             | Some ex \<Rightarrow>
                 if size_p ex = 0 then opened
                 else
                   let isSameSide = (side_p ex = BUY \<and> side = BUY) \<or> (side_p ex = SELL \<and> side = SELL) in
                   if isSameSide then
                     let totalSize = size_p ex + (if side = BUY then sz else - sz);
                         totalCost = (size_p ex * avgEntryPrice ex) + (sz * price)
                     in ex\<lparr>size_p := totalSize,
                           avgEntryPrice := totalCost / \<bar>totalSize\<bar>,
                           currentPrice := price\<rparr>
                   else
                     let netSize = size_p ex + (if side = BUY then sz else - sz);
                         realized = realizedPnl ex
                           + (sz * (price - avgEntryPrice ex)) * (if side_p ex = BUY then 1 else - 1)
                     in ex\<lparr>size_p := netSize,
                           realizedPnl := realized,
                           currentPrice := price,
                           side_p := (if netSize \<ge> 0 then BUY else SELL)\<rparr>);
          marked = newPosition\<lparr>unrealizedPnl :=
                     (currentPrice newPosition - avgEntryPrice newPosition) * size_p newPosition\<rparr>
      in emit_log position_changed (PositionChangedData tokenId marked)
           (sys\<lparr>store := savePosition marked (store sys)\<rparr>))"

text \<open>
  A stored position whose side agrees with the sign of its size. Fills have a positive
  size (\<open>submitOrder\<close> passes on \<open>filledSize > 0\<close> only), and then \<open>updatePosition\<close>
  keeps every stored position so: a same-side fill never brings a size to zero.
\<close>

definition side_consistent :: "Position \<Rightarrow> bool" where
  "side_consistent p = (if side_p p = BUY then size_p p \<ge> 0 else size_p p < 0)"

text \<open>
  The order manager's own fields: the dry-run flag, and the exchange client's answer to
  \<open>placeOrder\<close> (the client is outside the repository's core; only its answer is read).
\<close>

record OrderManager =
  dryRun :: bool
  placeOrder :: "OrderRequest \<Rightarrow> OrderResult"

definition truthy_text :: "template option \<Rightarrow> bool" where
  \<comment> \<open>JavaScript truthiness of a \<open>string | undefined\<close>: defined and not the empty string\<close>
  "truthy_text t = (case t of None \<Rightarrow> False | Some fs \<Rightarrow> \<not> list_all (\<lambda>f. f = Txt '''') fs)"

definition submitOrder :: "OrderManager \<Rightarrow> Clock \<Rightarrow> OrderRequest \<Rightarrow> System \<Rightarrow> OrderResult \<times> System" where
  "submitOrder om clk order sys =
     (let (riskCheck, sys1) = checkOrder clk order sys in
      if \<not> allowed riskCheck then
        (\<lparr>success = False, orderId_r = None, error_r = reason riskCheck,
          filledSize = None, avgFillPrice = None\<rparr>, sys1)
      else if dryRun om then
        (\<lparr>success = True, orderId_r = Some [Txt ''dry-'', Num (real_of_int (nowMs clk))],
          error_r = None, filledSize = None, avgFillPrice = None\<rparr>, sys1)
      else
        let result = placeOrder om order in
        if success result \<and> truthy_text (orderId_r result) then
          let oid = the (orderId_r result);
              sys2 = sys1\<lparr>store := saveOrder
                       (OrderRequest.extend order \<lparr>orderId = oid, status = ''open''\<rparr>) (store sys1)\<rparr>;
              sys3 = emit_log order_filled (OrderFilledData oid order result) sys2;
              sys4 = (case filledSize result of
                        None \<Rightarrow> sys3
                      | Some f \<Rightarrow>
                          if f > 0 then
                            updatePosition (tokenId_o order) (side_o order) f
                              (case avgFillPrice result of None \<Rightarrow> price_o order | Some p \<Rightarrow> p) sys3
                          else sys3)
          in (result, sys4)
        else (result, sys1))"

section \<open>Event bus (core/events.ts)\<close>

text \<open>
  A handler is a function object, registered and compared by reference: it is modelled as
  a reference \<open>hid\<close> and a table \<open>beh\<close> that gives each reference its behaviour.

  The bus maps an event type to a JavaScript \<open>Set\<close> of handlers. \<open>emit\<close> walks that
  \<open>Set\<close> while the handlers run, and a handler may call \<open>on\<close> and \<open>off\<close> on the same
  bus, so the \<open>Set\<close> is modelled with the entry list the language gives it: entries in
  insertion order, \<open>add\<close> appending an entry unless the value is there, \<open>delete\<close>
  emptying the entry of the value and leaving its place (\<open>None\<close>), and an iterator that
  is an index into the list, read again at every step.
\<close>

type_synonym hid = nat

datatype exn = Exn string

record 'd BotEvent =
  type_b :: EventType
  timestamp :: int
  data_b :: 'd

type_synonym HandlerSet = "hid option list"

type_synonym EventBus = "EventType \<rightharpoonup> HandlerSet"

definition set_add :: "hid \<Rightarrow> HandlerSet \<Rightarrow> HandlerSet" where
  "set_add h entries = (if Some h \<in> set entries then entries else entries @ [Some h])"




definition on :: "EventType \<Rightarrow> hid \<Rightarrow> EventBus \<Rightarrow> EventBus" where
  "on ty h bus =
     (let bus1 = (if bus ty = None then bus(ty \<mapsto> []) else bus)
      in bus1(ty \<mapsto> set_add h (the (bus1 ty))))"


text \<open>
  What the handlers act on: the bus (through \<open>on\<close>, \<open>off\<close>, \<open>once\<close> and \<open>emit\<close>) and
  the state of the application. A behaviour is any function of the event and this world;
  a call returns, or throws, or, the handler being \<open>async\<close>, returns a promise that is
  rejected. In each case it leaves a world behind.
\<close>

record 's World =
  handlers :: EventBus
  app :: 's

datatype 'w result = Returned 'w | Threw exn 'w | Rejected exn 'w



definition once :: "EventType \<Rightarrow> hid \<Rightarrow> EventBus \<Rightarrow> EventBus" where
  "once ty wrapped bus = on ty wrapped bus"

text \<open>
  A run of \<open>emit\<close>: the world, and what the run itself records: the handler calls made so
  far with the event each was given, the lines written by \<open>console.error\<close>, and the
  rejections of promises that nothing handles.
\<close>

record ('s, 'd) BusRun =
  world :: "'s World"
  calls :: "(hid \<times> 'd BotEvent) list"
  console :: "(EventType \<times> exn) list"
  unhandled :: "exn list"

text \<open>How a statement completes: normally, or abruptly with an exception.\<close>

datatype 'r outcome = Normal 'r | Abrupt exn 'r

definition call_handler ::
  "(hid \<Rightarrow> 'd BotEvent \<Rightarrow> 's World \<Rightarrow> 's World result) \<Rightarrow> hid \<Rightarrow> 'd BotEvent
     \<Rightarrow> ('s, 'd) BusRun \<Rightarrow> ('s, 'd) BusRun outcome" where
  \<comment> \<open>\<open>handler(event)\<close>: the promise of an async handler is dropped, not awaited\<close>
  "call_handler beh h event r =
     (let r1 = r\<lparr>calls := calls r @ [(h, event)]\<rparr> in
      case beh h event (world r1) of
        Returned w \<Rightarrow> Normal (r1\<lparr>world := w\<rparr>)
      | Threw e w \<Rightarrow> Abrupt e (r1\<lparr>world := w\<rparr>)
      | Rejected e w \<Rightarrow> Normal (r1\<lparr>world := w, unhandled := unhandled r1 @ [e]\<rparr>))"

definition console_error :: "EventType \<Rightarrow> exn \<Rightarrow> ('s, 'd) BusRun \<Rightarrow> ('s, 'd) BusRun outcome" where
  "console_error ty err r = Normal (r\<lparr>console := console r @ [(ty, err)]\<rparr>)"

definition try_catch ::
  "('r \<Rightarrow> 'r outcome) \<Rightarrow> (exn \<Rightarrow> 'r \<Rightarrow> 'r outcome) \<Rightarrow> 'r \<Rightarrow> 'r outcome" where
  "try_catch body handler r =
     (case body r of Normal r' \<Rightarrow> Normal r' | Abrupt e r' \<Rightarrow> handler e r')"

text \<open>
  The loop \<open>for (const handler of typeHandlers)\<close>, from the iterator's index on. The
  entries are those of the \<open>Set\<close> of the type as they are when the step is taken. An
  exception that leaves the body ends the loop; a handler that keeps adding handlers
  keeps it running, and then the loop has no result (\<open>None\<close>).
\<close>

partial_function (option) emit_loop ::
  "(hid \<Rightarrow> 'd BotEvent \<Rightarrow> 's World \<Rightarrow> 's World result) \<Rightarrow> EventType \<Rightarrow> 'd BotEvent \<Rightarrow> nat
     \<Rightarrow> ('s, 'd) BusRun \<Rightarrow> ('s, 'd) BusRun outcome option" where
  "emit_loop beh ty event index r =
     (case handlers (world r) ty of
        None \<Rightarrow> Some (Normal r)
      | Some entries \<Rightarrow>
          if index < length entries then
            (case entries ! index of
               None \<Rightarrow> emit_loop beh ty event (index + 1) r
             | Some handler \<Rightarrow>
                 (case try_catch (call_handler beh handler event) (console_error ty) r of
                    Normal r' \<Rightarrow> emit_loop beh ty event (index + 1) r'
                  | Abrupt e r' \<Rightarrow> Some (Abrupt e r')))
          else Some (Normal r))"

definition emit ::
  "(hid \<Rightarrow> 'd BotEvent \<Rightarrow> 's World \<Rightarrow> 's World result) \<Rightarrow> Clock \<Rightarrow> EventType \<Rightarrow> 'd
     \<Rightarrow> ('s, 'd) BusRun \<Rightarrow> ('s, 'd) BusRun outcome option" where
  "emit beh clk ty d r =
     (let event = \<lparr>type_b = ty, timestamp = nowMs clk, data_b = d\<rparr>;
          typeHandlers = handlers (world r) ty
      in case typeHandlers of
           None \<Rightarrow> Some (Normal r)
         | Some entries \<Rightarrow> emit_loop beh ty event 0 r)"

text \<open>
  The run after one guarded call \<open>try { handler(event) } catch (err) { console.error }\<close>,
  and a condition on a handler: whatever it does to the \<open>Set\<close> of a type, it leaves the
  entries of the other handlers as they are and adds none. A handler that does not touch
  the \<open>Set\<close> meets it, and so does one that unsubscribes itself.
\<close>

definition after_call ::
  "(hid \<Rightarrow> 'd BotEvent \<Rightarrow> 's World \<Rightarrow> 's World result) \<Rightarrow> EventType \<Rightarrow> 'd BotEvent
     \<Rightarrow> ('s, 'd) BusRun \<Rightarrow> hid \<Rightarrow> ('s, 'd) BusRun" where
  "after_call beh ty event r h =
     (let r1 = r\<lparr>calls := calls r @ [(h, event)]\<rparr> in
      case beh h event (world r1) of
        Returned w \<Rightarrow> r1\<lparr>world := w\<rparr>
      | Threw e w \<Rightarrow> r1\<lparr>world := w, console := console r1 @ [(ty, e)]\<rparr>
      | Rejected e w \<Rightarrow> r1\<lparr>world := w, unhandled := unhandled r1 @ [e]\<rparr>)"


section \<open>Discovery (services/gamma.ts)\<close>

text \<open>
  A catalog event as the service reads it. \<open>markets\<close> may be missing from the payload
  (the source tests \<open>!event.markets\<close>), hence the option. \<open>clobTokenIds\<close> is the raw
  JSON text of a market's token ids.
\<close>

record GammaMarket =
  conditionId_m :: string
  question :: string
  clobTokenIds :: string
  active_m :: bool
  closed_m :: bool

record GammaEvent =
  id_g :: string
  title :: string
  slug :: string
  negRisk :: bool
  markets :: "GammaMarket list option"

text \<open>
  \<open>JSON.parse\<close> belongs to the runtime and is a parameter \<open>jsonParse\<close> of the model:
  \<open>None\<close> when it throws, otherwise the parsed value, which \<open>parseClobTokenIds\<close>
  declares to be a \<open>string[]\<close>.
\<close>

definition parseClobTokenIds :: "(string \<Rightarrow> string list option) \<Rightarrow> string \<Rightarrow> string list" where
  "parseClobTokenIds jsonParse raw = (case jsonParse raw of None \<Rightarrow> [] | Some ids \<Rightarrow> ids)"

definition yesTokens :: "(string \<Rightarrow> string list option) \<Rightarrow> GammaMarket list \<Rightarrow> string list" where
  \<comment> \<open>the inner loop of the negative-risk branch: the first token of each sub-market that has one\<close>
  "yesTokens jsonParse ms =
     foldl (\<lambda>tokenIds market.
              let clobTokenIds' = parseClobTokenIds jsonParse (clobTokenIds market) in
              if length clobTokenIds' > 0 then tokenIds @ [clobTokenIds' ! 0] else tokenIds)
           [] ms"

definition extractEvent ::
  "(string \<Rightarrow> string list option) \<Rightarrow> MarketGroup list \<Rightarrow> GammaEvent \<Rightarrow> MarketGroup list" where
  \<comment> \<open>one turn of the loop over the events: \<open>groups\<close> before, \<open>groups\<close> after\<close>
  "extractEvent jsonParse groups event =
     (case markets event of
        None \<Rightarrow> groups
      | Some ms \<Rightarrow>
          if length ms = 0 then groups
          else if negRisk event \<and> length ms > 1 then
            let tokenIds' = yesTokens jsonParse ms in
            if length tokenIds' \<ge> 2 then
              groups @ [\<lparr>conditionId = conditionId_m (ms ! 0), tokenIds = tokenIds'\<rparr>]
            else groups
          else if length ms = 1 then
            let market = ms ! 0;
                clobTokenIds' = parseClobTokenIds jsonParse (clobTokenIds market) in
            if length clobTokenIds' = 2 then
              groups @ [\<lparr>conditionId = conditionId_m market, tokenIds = clobTokenIds'\<rparr>]
            else groups
          else groups)"

definition extractMarketGroups ::
  "(string \<Rightarrow> string list option) \<Rightarrow> GammaEvent list \<Rightarrow> MarketGroup list" where
  "extractMarketGroups jsonParse events = foldl (extractEvent jsonParse) [] events"

text \<open>\<open>Array.prototype.join\<close> on strings.\<close>

fun join :: "string \<Rightarrow> string list \<Rightarrow> string" where
  "join sep [] = ''''"
| "join sep [x] = x"
| "join sep (x # y # ys) = x @ sep @ join sep (y # ys)"

text \<open>
  The service: the stored group list, and the \<open>market_groups_updated\<close> payloads it has
  handed to the bus. \<open>sort()\<close> without a comparator orders strings by their code units,
  which is the lexicographic order on \<open>string\<close>.
\<close>

record GammaService =
  currentGroups :: "MarketGroup list"
  emitted_g :: "Emission list"

definition serialize :: "MarketGroup list \<Rightarrow> string" where
  "serialize groups =
     join '';'' (sort (map (\<lambda>g. conditionId g @ '':'' @ join '','' (tokenIds g)) groups))"

definition hasChanged :: "GammaService \<Rightarrow> MarketGroup list \<Rightarrow> bool" where
  "hasChanged svc newGroups =
     (if length newGroups \<noteq> length (currentGroups svc) then True
      else serialize newGroups \<noteq> serialize (currentGroups svc))"

text \<open>
  \<open>fetchAndUpdate\<close>, given what the HTTP fetch produced: \<open>Inl\<close> a failure (a network
  error, or a status that is not ok), which is logged and swallowed, or \<open>Inr\<close> the event
  list of the response body.
\<close>

definition fetchAndUpdate ::
  "(string \<Rightarrow> string list option) \<Rightarrow> string + GammaEvent list \<Rightarrow> GammaService \<Rightarrow> GammaService" where
  "fetchAndUpdate jsonParse response svc =
     (case response of
        Inl err \<Rightarrow> svc
      | Inr events \<Rightarrow>
          let groups = extractMarketGroups jsonParse events in
          if hasChanged svc groups then
            svc\<lparr>currentGroups := groups,
                emitted_g := emitted_g svc @
                  [\<lparr>type_e = market_groups_updated, data_e = MarketGroupsData groups\<rparr>]\<rparr>
          else svc)"

section \<open>Arbitrage strategy (strategies/bregman-arb.ts)\<close>

record PriceLevel =
  price_l :: real
  size_l :: real

text \<open>An order book; \<open>timestamp_ob\<close> is \<open>timestamp.getTime()\<close>, in milliseconds.\<close>

record OrderBook =
  tokenId_ob :: string
  bids :: "PriceLevel list"
  asks :: "PriceLevel list"
  spread :: real
  midPrice :: real
  timestamp_ob :: int

record TradeSignal =
  tokenId_s :: string
  side_s :: Side
  confidence :: real
  targetPrice :: real
  size_s :: real
  reason_s :: template

record BregmanArbConfig =
  divergenceThreshold :: real
  orderSize :: real
  maxPositionSize_c :: real
  minEdge :: real
  feeRate :: real
  maxStalenessMs :: real
  statsIntervalMs :: real

record BregmanArbStats =
  evaluations :: nat
  skippedNoGroup :: nat
  skippedMissingBook :: nat
  skippedStaleBook :: nat
  simpleArbSignals :: nat
  bregmanArbSignals :: nat
  noArbFound :: nat

text \<open>
  The two services a strategy reads through its context: the market data cache and the
  order manager's positions.
\<close>

record StrategyContext =
  getOrderBook :: "string \<Rightarrow> OrderBook option"
  getPosition_om :: "string \<Rightarrow> Position option"

record BregmanArbStrategy =
  enabled :: bool
  config :: BregmanArbConfig
  marketGroups :: "MarketGroup list"
  tokenToGroup :: "string \<rightharpoonup> MarketGroup"
  stats :: BregmanArbStats

datatype js_error = TypeError

definition default_config :: BregmanArbConfig where
  "default_config = \<lparr>divergenceThreshold = 5/100, orderSize = 10, maxPositionSize_c = 50,
                      minEdge = 1/100, feeRate = 2/100, maxStalenessMs = 5000,
                      statsIntervalMs = 30000\<rparr>"

definition tokenIndex :: "MarketGroup list \<Rightarrow> (string \<rightharpoonup> MarketGroup)" where
  \<comment> \<open>the token to group lookup: a later group overwrites an earlier one\<close>
  "tokenIndex groups =
     foldl (\<lambda>m grp. foldl (\<lambda>m tokenId. m(tokenId \<mapsto> grp)) m (tokenIds grp)) Map.empty groups"

definition updateMarketGroups :: "MarketGroup list \<Rightarrow> BregmanArbStrategy \<Rightarrow> BregmanArbStrategy" where
  "updateMarketGroups groups strat = strat\<lparr>marketGroups := groups, tokenToGroup := tokenIndex groups\<rparr>"

text \<open>The loop of \<open>evaluate\<close> that collects the books of the group, with its two early exits.\<close>

datatype gathered = MissingBook | StaleBook | Books "string \<rightharpoonup> OrderBook"

fun gatherBooks ::
  "StrategyContext \<Rightarrow> BregmanArbConfig \<Rightarrow> int \<Rightarrow> string \<Rightarrow> OrderBook \<Rightarrow> string list
     \<Rightarrow> (string \<rightharpoonup> OrderBook) \<Rightarrow> gathered" where
  "gatherBooks ctx cfg now tokenId orderBook [] books = Books books"
| "gatherBooks ctx cfg now tokenId orderBook (siblingId # rest) books =
     (case (if siblingId = tokenId then Some orderBook else getOrderBook ctx siblingId) of
        None \<Rightarrow> MissingBook
      | Some book \<Rightarrow>
          let staleness = now - timestamp_ob book in
          if real_of_int staleness > maxStalenessMs cfg then StaleBook
          else gatherBooks ctx cfg now tokenId orderBook rest (books(siblingId \<mapsto> book)))"

text \<open>
  The first loop of \<open>checkSimpleArb\<close>. It ends by running through, by \<open>return []\<close> on an
  empty ask side, or by the \<open>TypeError\<close> of reading \<open>asks\<close> of a book that is not in the
  map. The two \<open>Map\<close>s it fills are association lists in insertion order.
\<close>

datatype 'a scan = Thrown js_error | Bail | Completed 'a

fun scanAsks ::
  "(string \<rightharpoonup> OrderBook) \<Rightarrow> string list \<Rightarrow> real \<times> (string \<times> real) list \<times> (string \<times> real) list
     \<Rightarrow> (real \<times> (string \<times> real) list \<times> (string \<times> real) list) scan" where
  "scanAsks books [] acc = Completed acc"
| "scanAsks books (tokenId # rest) (askSum, askPrices, askSizes) =
     (case books tokenId of
        None \<Rightarrow> Thrown TypeError
      | Some book \<Rightarrow>
          if length (asks book) = 0 then Bail
          else
            let bestAsk = asks book ! 0 in
            scanAsks books rest
              (askSum + price_l bestAsk,
               AList.update tokenId (price_l bestAsk) askPrices,
               AList.update tokenId (size_l bestAsk) askSizes))"

definition math_min :: "real list \<Rightarrow> real option" where
  \<comment> \<open>\<open>Math.min(...xs)\<close>; \<open>None\<close> is the \<open>Infinity\<close> of the empty argument list\<close>
  "math_min xs = (case xs of [] \<Rightarrow> None | x # rest \<Rightarrow> Some (foldl min x rest))"

definition checkSimpleArb ::
  "StrategyContext \<Rightarrow> BregmanArbConfig \<Rightarrow> MarketGroup \<Rightarrow> (string \<rightharpoonup> OrderBook)
     \<Rightarrow> js_error + TradeSignal list" where
  "checkSimpleArb ctx cfg grp books =
     (case scanAsks books (tokenIds grp) (0, [], []) of
        Thrown e \<Rightarrow> Inl e
      | Bail \<Rightarrow> Inr []
      | Completed (askSum, askPrices, askSizes) \<Rightarrow>
          let totalCost = askSum * (1 + feeRate cfg);
              edge = 1 - totalCost
          in
          if edge < minEdge cfg then Inr []
          else
            let minLiquidity = math_min (map snd askSizes);
                size0 = (case minLiquidity of
                           None \<Rightarrow> orderSize cfg
                         | Some l \<Rightarrow> min (orderSize cfg) l);
                sz = foldl (\<lambda>sz tokenId.
                              let position = getPosition_om ctx tokenId;
                                  currentSize = (case position of None \<Rightarrow> 0 | Some p \<Rightarrow> size_p p);
                                  remaining = maxPositionSize_c cfg - currentSize
                              in min sz remaining)
                           size0 (tokenIds grp)
            in
            if sz \<le> 0 then Inr []
            else
              Inr (map (\<lambda>tokenId.
                          \<lparr>tokenId_s = tokenId,
                           side_s = BUY,
                           confidence = min (edge / minEdge cfg) 1,
                           targetPrice = the (map_of askPrices tokenId),
                           size_s = sz,
                           reason_s = [Txt ''Simple arb: askSum='', Fixed askSum 4,
                                       Txt '' edge='', Fixed (edge * 100) 2, Txt ''%'']\<rparr>)
                       (tokenIds grp)))"

text \<open>The two loops of \<open>checkBregmanArb\<close>: the divergence, which returns early on a
  probability that is not positive, and the search for the smallest probability.\<close>

fun klLoop :: "real \<Rightarrow> real list \<Rightarrow> real \<Rightarrow> real option" where
  "klLoop uniform [] klDiv = Some klDiv"
| "klLoop uniform (q # qs) klDiv =
     (if q \<le> 0 then None else klLoop uniform qs (klDiv + uniform * ln (uniform / q)))"

definition minProbLoop :: "real list \<Rightarrow> nat \<Rightarrow> nat" where
  "minProbLoop impliedProbs n =
     foldl (\<lambda>minProbIdx i. if impliedProbs ! i < impliedProbs ! minProbIdx then i else minProbIdx)
           0 [1..<n]"

definition checkBregmanArb ::
  "StrategyContext \<Rightarrow> BregmanArbConfig \<Rightarrow> MarketGroup \<Rightarrow> (string \<rightharpoonup> OrderBook)
     \<Rightarrow> js_error + TradeSignal list" where
  "checkBregmanArb ctx cfg grp books =
     (let n = length (tokenIds grp) in
      case those (map books (tokenIds grp)) of
        None \<Rightarrow> Inl TypeError
      | Some bs \<Rightarrow>
          let midPrices = map midPrice bs;
              priceSum = foldl (+) 0 midPrices
          in
          if priceSum = 0 then Inr []
          else
            let impliedProbs = map (\<lambda>p. p / priceSum) midPrices;
                uniform = 1 / real n
            in
            case klLoop uniform impliedProbs 0 of
              None \<Rightarrow> Inr []
            | Some klDiv \<Rightarrow>
                if klDiv < divergenceThreshold cfg then Inr []
                else
                  let minProbIdx = minProbLoop impliedProbs n;
                      targetTokenId = tokenIds grp ! minProbIdx
                  in
                  case books targetTokenId of
                    None \<Rightarrow> Inl TypeError
                  | Some book \<Rightarrow>
                      let position = getPosition_om ctx targetTokenId;
                          currentSize = (case position of None \<Rightarrow> 0 | Some p \<Rightarrow> size_p p)
                      in
                      if currentSize \<ge> maxPositionSize_c cfg then Inr []
                      else
                        let sizeMultiplier = min (klDiv / divergenceThreshold cfg) 2;
                            availableLiquidity =
                              (if length (asks book) > 0 then size_l (asks book ! 0) else 0);
                            remainingCapacity = maxPositionSize_c cfg - currentSize;
                            sz = min (min (orderSize cfg * sizeMultiplier) availableLiquidity)
                                     remainingCapacity
                        in
                        if sz \<le> 0 then Inr []
                        else
                          let targetPrice =
                                (if length (asks book) > 0 then price_l (asks book ! 0)
                                 else midPrice book);
                              confidence' = min (klDiv / (divergenceThreshold cfg * 2)) 1
                          in
                          Inr [\<lparr>tokenId_s = targetTokenId,
                                side_s = BUY,
                                confidence = confidence',
                                targetPrice = targetPrice,
                                size_s = sz,
                                reason_s = [Txt ''Bregman projection: KL='', Fixed klDiv 4,
                                            Txt '' underpriced='', Txt (take 8 targetTokenId)]\<rparr>])"

definition evaluate ::
  "StrategyContext \<Rightarrow> int \<Rightarrow> string \<Rightarrow> OrderBook \<Rightarrow> BregmanArbStrategy
     \<Rightarrow> (js_error + TradeSignal list) \<times> BregmanArbStrategy" where
  "evaluate ctx now tokenId orderBook strat0 =
     (let st0 = stats strat0;
          st = st0\<lparr>evaluations := evaluations st0 + 1\<rparr>;
          strat = strat0\<lparr>stats := st\<rparr>
      in
      if \<not> enabled strat then (Inr [], strat)
      else
        case tokenToGroup strat tokenId of
          None \<Rightarrow> (Inr [], strat\<lparr>stats := st\<lparr>skippedNoGroup := skippedNoGroup st + 1\<rparr>\<rparr>)
        | Some grp \<Rightarrow>
            (case gatherBooks ctx (config strat) now tokenId orderBook (tokenIds grp) Map.empty of
               MissingBook \<Rightarrow>
                 (Inr [], strat\<lparr>stats := st\<lparr>skippedMissingBook := skippedMissingBook st + 1\<rparr>\<rparr>)
             | StaleBook \<Rightarrow>
                 (Inr [], strat\<lparr>stats := st\<lparr>skippedStaleBook := skippedStaleBook st + 1\<rparr>\<rparr>)
             | Books books \<Rightarrow>
                 (case checkSimpleArb ctx (config strat) grp books of
                    Inl e \<Rightarrow> (Inl e, strat)
                  | Inr simpleArbSignals' \<Rightarrow>
                      if length simpleArbSignals' > 0 then
                        (Inr simpleArbSignals',
                         strat\<lparr>stats := st\<lparr>simpleArbSignals :=
                                   simpleArbSignals st + length simpleArbSignals'\<rparr>\<rparr>)
                      else
                        (case checkBregmanArb ctx (config strat) grp books of
                           Inl e \<Rightarrow> (Inl e, strat)
                         | Inr bregmanSignals \<Rightarrow>
                             if length bregmanSignals > 0 then
                               (Inr bregmanSignals,
                                strat\<lparr>stats := st\<lparr>bregmanArbSignals :=
                                          bregmanArbSignals st + length bregmanSignals\<rparr>\<rparr>)
                             else
                               (Inr bregmanSignals,
                                strat\<lparr>stats := st\<lparr>noArbFound := noArbFound st + 1\<rparr>\<rparr>)))))"

text \<open>
  The book \<open>evaluate\<close> reads for a token of the group: the book it was called with for
  the trigger token, the market data cache for a sibling.
\<close>

definition bookOf :: "StrategyContext \<Rightarrow> string \<Rightarrow> OrderBook \<Rightarrow> string \<Rightarrow> OrderBook option" where
  "bookOf ctx tokenId orderBook t = (if t = tokenId then Some orderBook else getOrderBook ctx t)"

definition zero_stats :: BregmanArbStats where
  "zero_stats = \<lparr>evaluations = 0, skippedNoGroup = 0, skippedMissingBook = 0,
                  skippedStaleBook = 0, simpleArbSignals = 0, bregmanArbSignals = 0,
                  noArbFound = 0\<rparr>"

text \<open>The constructor, given the configuration after the defaults have been merged in.\<close>

definition new_strategy :: "MarketGroup list \<Rightarrow> BregmanArbConfig \<Rightarrow> BregmanArbStrategy" where
  "new_strategy groups cfg = \<lparr>enabled = True, config = cfg, marketGroups = groups,
                               tokenToGroup = tokenIndex groups, stats = zero_stats\<rparr>"

section \<open>Concrete inputs\<close>

text \<open>
  The inputs at which the theorems below are exercised: an empty store under the limits
  of the risk manager's test suite, and the same system after a day's trading that lost 60.
\<close>

definition empty_store :: Store where
  "empty_store = \<lparr>positions = [], orders = [], trades = []\<rparr>"

definition test_limits :: RiskLimits where
  "test_limits = \<lparr>maxPositionSize = 100, maxTotalExposure = 500, maxLossPerTrade = 10,
                   maxDailyLoss = 50, maxOpenOrders = 5\<rparr>"

definition fresh_system :: System where
  "fresh_system = \<lparr>store = empty_store, limits = test_limits, halted = False,
                    haltReason = None, emitted = []\<rparr>"

definition loss_system :: System where
  "loss_system = fresh_system\<lparr>store := empty_store\<lparr>trades :=
       [\<lparr>side_t = ''BUY'', size_t = 100, price_t = 6/10, matchDay = ''2026-01-05''\<rparr>]\<rparr>\<rparr>"

definition test_clock :: Clock where
  "test_clock = \<lparr>nowMs = 1767600000000, isoDay = ''2026-01-05''\<rparr>"

definition test_order :: OrderRequest where
  "test_order = \<lparr>tokenId_o = ''token-1'', side_o = BUY, price_o = 5/10, size_o = 10,
                  type_o = GTC, expiration = None\<rparr>"

definition dry_manager :: OrderManager where
  "dry_manager = \<lparr>dryRun = True,
      placeOrder = (\<lambda>_. \<lparr>success = True, orderId_r = Some [Txt ''mock-1''], error_r = None,
                          filledSize = None, avgFillPrice = None\<rparr>)\<rparr>"

text \<open>
  A parser that knows two payloads, and three catalog events: a binary market, a
  negative-risk event with three sub-markets, and a negative-risk event with one.
\<close>

definition toy_parse :: "string \<Rightarrow> string list option" where
  "toy_parse raw =
     (if raw = ''[\"a\",\"b\"]'' then Some [''a'', ''b'']
      else if raw = ''[\"c\",\"d\"]'' then Some [''c'', ''d'']
      else if raw = ''[\"e\",\"f\"]'' then Some [''e'', ''f'']
      else None)"

definition market_ab :: GammaMarket where
  "market_ab = \<lparr>conditionId_m = ''cond-1'', question = ''?'', clobTokenIds = ''[\"a\",\"b\"]'',
                 active_m = True, closed_m = False\<rparr>"

definition market_cd :: GammaMarket where
  "market_cd = \<lparr>conditionId_m = ''cond-2'', question = ''?'', clobTokenIds = ''[\"c\",\"d\"]'',
                 active_m = True, closed_m = False\<rparr>"

definition market_ef :: GammaMarket where
  "market_ef = \<lparr>conditionId_m = ''cond-3'', question = ''?'', clobTokenIds = ''[\"e\",\"f\"]'',
                 active_m = True, closed_m = False\<rparr>"

definition binary_event :: GammaEvent where
  "binary_event = \<lparr>id_g = ''1'', title = ''T'', slug = ''t'', negRisk = False,
                    markets = Some [market_ab]\<rparr>"

definition multi_event :: GammaEvent where
  "multi_event = \<lparr>id_g = ''2'', title = ''T'', slug = ''t'', negRisk = True,
                   markets = Some [market_ab, market_cd, market_ef]\<rparr>"

definition single_neg_event :: GammaEvent where
  "single_neg_event = \<lparr>id_g = ''5'', title = ''T'', slug = ''t'', negRisk = True,
                        markets = Some [market_cd]\<rparr>"

definition fresh_gamma :: GammaService where
  "fresh_gamma = \<lparr>currentGroups = [], emitted_g = []\<rparr>"

text \<open>
  A three-way group with every best ask at 0.25 for 30, and a binary group quoted
  0.79/0.81 and 0.19/0.21: once with no position, once with the position on \<open>no\<close>
  already at the configured maximum of 50.
\<close>

definition three_way :: MarketGroup where
  "three_way = \<lparr>conditionId = ''cond-3way'', tokenIds = [''A'', ''B'', ''C'']\<rparr>"

definition quarter_book :: "string \<Rightarrow> OrderBook" where
  "quarter_book t = \<lparr>tokenId_ob = t, bids = [\<lparr>price_l = 23/100, size_l = 30\<rparr>],
                      asks = [\<lparr>price_l = 25/100, size_l = 30\<rparr>],
                      spread = 2/100, midPrice = 24/100, timestamp_ob = 1000\<rparr>"

definition three_way_ctx :: StrategyContext where
  "three_way_ctx = \<lparr>getOrderBook = (\<lambda>t. if t \<in> set (tokenIds three_way)
                                           then Some (quarter_book t) else None),
                     getPosition_om = (\<lambda>t. None)\<rparr>"

definition yes_no :: MarketGroup where
  "yes_no = \<lparr>conditionId = ''cond-yn'', tokenIds = [''yes'', ''no'']\<rparr>"

definition yes_book :: OrderBook where
  "yes_book = \<lparr>tokenId_ob = ''yes'', bids = [\<lparr>price_l = 79/100, size_l = 30\<rparr>],
                asks = [\<lparr>price_l = 81/100, size_l = 30\<rparr>],
                spread = 2/100, midPrice = 80/100, timestamp_ob = 1000\<rparr>"

definition no_book :: OrderBook where
  "no_book = \<lparr>tokenId_ob = ''no'', bids = [\<lparr>price_l = 19/100, size_l = 30\<rparr>],
               asks = [\<lparr>price_l = 21/100, size_l = 30\<rparr>],
               spread = 2/100, midPrice = 20/100, timestamp_ob = 1000\<rparr>"

definition yes_no_ctx :: StrategyContext where
  "yes_no_ctx = \<lparr>getOrderBook = (\<lambda>t. if t = ''yes'' then Some yes_book
                                        else if t = ''no'' then Some no_book else None),
                  getPosition_om = (\<lambda>t. None)\<rparr>"

definition full_no_ctx :: StrategyContext where
  "full_no_ctx = yes_no_ctx\<lparr>getPosition_om :=
       (\<lambda>t. if t = ''no''
             then Some \<lparr>tokenId_p = ''no'', market_p = '''', size_p = 50, avgEntryPrice = 20/100,
                        currentPrice = 20/100, unrealizedPnl = 0, realizedPnl = 0, side_p = BUY\<rparr>
             else None)\<rparr>"

text \<open>
  Three handlers on \<open>risk_breach\<close>, registered in the order 1, 2, 3, the second with
  \<open>once\<close>, and two tables of behaviours for them. In the first, handler 1 is async and
  its promise is rejected, handler 2 is the \<open>once\<close> wrapper of a handler that
  unsubscribes handler 3, and handler 3 counts. In the second, handler 1 throws, handler 2
  is the \<open>once\<close> wrapper of an async handler whose promise is rejected, and handler 3
  counts.
\<close>

definition three_handlers :: EventBus where
  "three_handlers = on risk_breach 3 (once risk_breach 2 (on risk_breach 1 Map.empty))"

definition breach_event :: "string BotEvent" where
  "breach_event = \<lparr>type_b = risk_breach, timestamp = nowMs test_clock, data_b = ''x''\<rparr>"



definition fresh_run :: "(nat, string) BusRun" where
  "fresh_run = \<lparr>world = \<lparr>handlers = three_handlers, app = 0\<rparr>, calls = [], console = [],
                 unhandled = []\<rparr>"

text \<open>
  A third table: every handler, when it runs, subscribes a handler that was not there
  (handler \<open>h\<close> subscribes handler \<open>h + 1\<close>). \<open>ahead i r\<close> says that the handlers of
  \<open>risk_breach\<close> are 1 to \<open>n\<close> in this order with none unsubscribed, and that the
  iterator's index \<open>i\<close> has not reached the end.
\<close>

definition restless :: "hid \<Rightarrow> string BotEvent \<Rightarrow> nat World \<Rightarrow> nat World result" where
  "restless h event w = Returned (w\<lparr>handlers := on risk_breach (h + 1) (handlers w)\<rparr>)"

definition ahead :: "nat \<Rightarrow> (nat, string) BusRun \<Rightarrow> bool" where
  "ahead i r = (\<exists>n. handlers (world r) risk_breach = Some (map Some [1..<Suc n]) \<and> i < n)"
section \<open>Position bookkeeping\<close>

lemma getPosition_savePosition:
  "getPosition (savePosition p st) t = (if tokenId_p p = t then Some p else getPosition st t)"
proof -
  have "find (\<lambda>q. tokenId_p q = t) (filter (\<lambda>q. tokenId_p q \<noteq> tokenId_p p) xs @ [p])
        = (if tokenId_p p = t then Some p else find (\<lambda>q. tokenId_p q = t) xs)" for xs
    by (induction xs) auto
  then show ?thesis by (simp add: getPosition_def savePosition_def)
qed

lemma getPosition_tokenId: "getPosition st t = Some p \<Longrightarrow> tokenId_p p = t"
  by (auto simp: getPosition_def find_Some_iff)

lemma getPosition_fresh: "getPosition (store fresh_system) t = None"
  by (simp add: getPosition_def fresh_system_def empty_store_def)

text \<open>The three branches of \<open>updatePosition\<close>, read back from the store.\<close>

lemma updatePosition_open:
  assumes "getPosition (store sys) t = None
           \<or> (\<exists>ex. getPosition (store sys) t = Some ex \<and> size_p ex = 0)"
  shows "getPosition (store (updatePosition t side sz price sys)) t =
           Some \<lparr>tokenId_p = t, market_p = '''', size_p = (if side = BUY then sz else - sz),
                 avgEntryPrice = price, currentPrice = price, unrealizedPnl = 0,
                 realizedPnl = 0, side_p = side\<rparr>"
  using assms
  by (auto simp: updatePosition_def Let_def getPosition_savePosition emit_log_def)

lemma updatePosition_same_side:
  assumes "getPosition (store sys) t = Some ex" "size_p ex \<noteq> 0" "side_p ex = side"
  shows "getPosition (store (updatePosition t side sz price sys)) t =
           Some (ex\<lparr>size_p := size_p ex + (if side = BUY then sz else - sz),
                    avgEntryPrice := (size_p ex * avgEntryPrice ex + sz * price)
                                       / \<bar>size_p ex + (if side = BUY then sz else - sz)\<bar>,
                    currentPrice := price,
                    unrealizedPnl := (price - (size_p ex * avgEntryPrice ex + sz * price)
                                       / \<bar>size_p ex + (if side = BUY then sz else - sz)\<bar>)
                                     * (size_p ex + (if side = BUY then sz else - sz))\<rparr>)"
  using assms getPosition_tokenId[OF assms(1)]
  by (cases side) (simp_all add: updatePosition_def Let_def getPosition_savePosition emit_log_def)

lemma updatePosition_opposite_side:
  assumes "getPosition (store sys) t = Some ex" "size_p ex \<noteq> 0" "side_p ex \<noteq> side"
  shows "getPosition (store (updatePosition t side sz price sys)) t =
           Some (ex\<lparr>size_p := size_p ex + (if side = BUY then sz else - sz),
                    realizedPnl := realizedPnl ex
                       + (sz * (price - avgEntryPrice ex)) * (if side_p ex = BUY then 1 else - 1),
                    currentPrice := price,
                    side_p := (if size_p ex + (if side = BUY then sz else - sz) \<ge> 0
                               then BUY else SELL),
                    unrealizedPnl := (price - avgEntryPrice ex)
                                     * (size_p ex + (if side = BUY then sz else - sz))\<rparr>)"
  using assms getPosition_tokenId[OF assms(1)]
  by (cases side; cases "side_p ex")
     (simp_all add: updatePosition_def Let_def getPosition_savePosition emit_log_def)

lemma updatePosition_marks:
  "\<exists>p. getPosition (store (updatePosition t side sz price sys)) t = Some p
       \<and> unrealizedPnl p = (currentPrice p - avgEntryPrice p) * size_p p"
  by (auto simp: updatePosition_def Let_def getPosition_savePosition emit_log_def
           split: option.splits dest: getPosition_tokenId)

lemma getPosition_mem: "getPosition st t = Some p \<Longrightarrow> p \<in> set (positions st)"
  by (auto simp: getPosition_def find_Some_iff)

lemma updatePosition_consistent:
  assumes inv: "\<forall>p \<in> set (positions (store sys)). side_consistent p" and pos: "0 < sz"
  shows "\<forall>p \<in> set (positions (store (updatePosition t side sz price sys))). side_consistent p"
proof -
  have ex: "side_consistent ex" if "getPosition (store sys) t = Some ex" for ex
    using inv getPosition_mem[OF that] by blast
  show ?thesis
    using inv pos ex
    by (cases side)
       (auto simp: updatePosition_def Let_def savePosition_def emit_log_def side_consistent_def
             split: option.splits if_splits)
qed

lemma consistent_same_side_nonzero:
  assumes "side_consistent ex" "size_p ex \<noteq> 0" "side_p ex = side" "0 < sz"
  shows "size_p ex + (if side = BUY then sz else - sz) \<noteq> 0"
  using assms by (cases side) (auto simp: side_consistent_def split: if_splits)

text \<open>
  On a long position (positive size) the same-side branch is the size-weighted average:
  there \<open>\<bar>size\<bar> = size\<close>, and the numerator of the source is the weighted cost.
\<close>

lemma updatePosition_same_side_long:
  assumes "getPosition (store sys) t = Some ex" "size_p ex > 0" "side_p ex = BUY"
  shows "\<exists>p. getPosition (store (updatePosition t BUY sz price sys)) t = Some p
           \<and> size_p p = size_p ex + sz
           \<and> avgEntryPrice p = (\<bar>size_p ex\<bar> * avgEntryPrice ex + sz * price) / \<bar>size_p p\<bar>
           \<and> currentPrice p = price
           \<and> realizedPnl p = realizedPnl ex"
  using updatePosition_same_side[OF assms(1) _ assms(3), of sz price] assms(2) by simp

text \<open>
  C1. For a fill on the side of an existing position of non-zero size, the new average
  entry price is claimed to be \<open>(\<bar>P.size\<bar> \<times> P.avg_entry + size \<times> price) / \<bar>new_size\<bar>\<close>,
  for long and for short positions. The source multiplies by the signed \<open>existing.size\<close>.
  Evaluated on a short position: opening SELL 10 at 0.40 leaves size \<open>-10\<close>, average 0.40,
  side SELL; a second SELL 10 at 0.60 leaves size \<open>-20\<close> (as claimed) and an average
  entry price of 0.10, where the claimed formula gives 0.50.
\<close>

theorem updatePosition_short_average:
  "(let sys1 = updatePosition ''t'' SELL 10 (4/10) fresh_system;
        sys2 = updatePosition ''t'' SELL 10 (6/10) sys1
    in map_option size_p (getPosition (store sys1) ''t'') = Some (- 10)
     \<and> map_option avgEntryPrice (getPosition (store sys1) ''t'') = Some (4/10)
     \<and> map_option side_p (getPosition (store sys1) ''t'') = Some SELL
     \<and> map_option size_p (getPosition (store sys2) ''t'') = Some (- 20)
     \<and> map_option avgEntryPrice (getPosition (store sys2) ''t'') = Some (1/10)
     \<and> (\<bar>- 10\<bar> * (4/10) + 10 * (6/10)) / \<bar>- 20\<bar> = (1/2 :: real))"
proof -
  define sys1 where "sys1 = updatePosition ''t'' SELL 10 (4/10) fresh_system"
  have p1: "getPosition (store sys1) ''t'' =
          Some \<lparr>tokenId_p = ''t'', market_p = '''', size_p = - 10,
                 avgEntryPrice = 4/10, currentPrice = 4/10, unrealizedPnl = 0,
                 realizedPnl = 0, side_p = SELL\<rparr>"
    unfolding sys1_def using updatePosition_open[of fresh_system "''t''" SELL 10 "4/10"]
    by (simp add: getPosition_fresh)
  show ?thesis
    unfolding Let_def sys1_def[symmetric]
    using p1 updatePosition_same_side[OF p1, of SELL 10 "6/10"] by simp
qed

text \<open>
  C2. From no position on a token, BUY 10 at 0.40 and BUY 10 at 0.60 give size 20 and
  average entry 0.50; SELL 10 at 0.70 then adds \<open>10 \<times> (0.70 - 0.50) = 2\<close> to the realized
  PnL and leaves size 10, side BUY. After every update, whatever the store and the fill
  (a same-side fill that would bring the size to zero, and so divide by zero, apart),
  the stored position has \<open>unrealized_pnl = (current_price - avg_entry_price) \<times> size\<close>.
\<close>

theorem position_pnl_scenario:
  assumes "getPosition (store sys) t = None"
  shows "(let s1 = updatePosition t BUY 10 (40/100) sys;
              s2 = updatePosition t BUY 10 (60/100) s1;
              s3 = updatePosition t SELL 10 (70/100) s2
          in (\<exists>p1 p2 p3. getPosition (store s1) t = Some p1
                \<and> getPosition (store s2) t = Some p2
                \<and> getPosition (store s3) t = Some p3
                \<and> size_p p2 = 20 \<and> avgEntryPrice p2 = 50/100
                \<and> realizedPnl p3 = realizedPnl p2 + 2
                \<and> 10 * (70/100 - 50/100) = (2::real)
                \<and> size_p p3 = 10 \<and> side_p p3 = BUY))
       \<and> (\<forall>sys' t' side sz price.
             (\<forall>ex. getPosition (store sys') t' = Some ex \<and> size_p ex \<noteq> 0 \<and> side_p ex = side
                     \<longrightarrow> size_p ex + (if side = BUY then sz else - sz) \<noteq> 0)
             \<longrightarrow> (\<exists>p. getPosition (store (updatePosition t' side sz price sys')) t' = Some p
                      \<and> unrealizedPnl p = (currentPrice p - avgEntryPrice p) * size_p p))"
proof -
  define s1 where "s1 = updatePosition t BUY 10 (40/100) sys"
  define s2 where "s2 = updatePosition t BUY 10 (60/100) s1"
  have p1: "getPosition (store s1) t =
          Some \<lparr>tokenId_p = t, market_p = '''', size_p = 10,
                 avgEntryPrice = 40/100, currentPrice = 40/100, unrealizedPnl = 0,
                 realizedPnl = 0, side_p = BUY\<rparr>"
    unfolding s1_def using updatePosition_open[of sys t BUY 10 "40/100"] assms by simp
  have p2: "getPosition (store s2) t =
          Some \<lparr>tokenId_p = t, market_p = '''', size_p = 20,
                 avgEntryPrice = 50/100, currentPrice = 60/100, unrealizedPnl = 2,
                 realizedPnl = 0, side_p = BUY\<rparr>"
    unfolding s2_def using updatePosition_same_side[OF p1, of BUY 10 "60/100"] by simp
  have p3: "getPosition (store (updatePosition t SELL 10 (70/100) s2)) t =
          Some \<lparr>tokenId_p = t, market_p = '''', size_p = 10,
                 avgEntryPrice = 50/100, currentPrice = 70/100, unrealizedPnl = 2,
                 realizedPnl = 2, side_p = BUY\<rparr>"
    using updatePosition_opposite_side[OF p2, of SELL 10 "70/100"] by simp
  show ?thesis
    unfolding Let_def s1_def[symmetric] s2_def[symmetric]
    using p1 p2 p3 updatePosition_marks by simp
qed

theorem position_pnl_scenario_witness:
  "getPosition (store fresh_system) ''t'' = None
   \<and> map_option size_p (getPosition (store
        (updatePosition ''t'' BUY 10 (40/100) fresh_system)) ''t'') = Some 10
   \<and> (let s2 = updatePosition ''t'' BUY 10 (60/100)
                  (updatePosition ''t'' BUY 10 (40/100) fresh_system);
           s3 = updatePosition ''t'' SELL 10 (70/100) s2
       in map_option size_p (getPosition (store s2) ''t'') = Some 20
        \<and> map_option avgEntryPrice (getPosition (store s2) ''t'') = Some (50/100)
        \<and> map_option size_p (getPosition (store s3) ''t'') = Some 10
        \<and> map_option side_p (getPosition (store s3) ''t'') = Some BUY)"
proof -
  have n: "getPosition (store fresh_system) ''t'' = None" by (rule getPosition_fresh)
  have o: "map_option size_p (getPosition (store
        (updatePosition ''t'' BUY 10 (40/100) fresh_system)) ''t'') = Some 10"
    using updatePosition_open[of fresh_system "''t''" BUY 10 "40/100"] n by simp
  show ?thesis
    using n o position_pnl_scenario[OF n] unfolding Let_def by auto
qed

section \<open>Admission\<close>

lemma checkOrder_halted:
  "halted sys \<Longrightarrow> checkOrder clk order sys =
      (\<lparr>allowed = False, reason = Some (haltedText (haltReason sys))\<rparr>, sys)"
  by (simp add: checkOrder_def)

lemma checkOrders_halted:
  "halted sys \<Longrightarrow> checkOrders reqs sys =
      (replicate (length reqs) \<lparr>allowed = False, reason = Some (haltedText (haltReason sys))\<rparr>, sys)"
  by (induction reqs) (auto simp: checkOrder_halted)

lemma checkOrder_allowed_unchanged:
  "allowed (fst (checkOrder clk order sys)) \<Longrightarrow> snd (checkOrder clk order sys) = sys"
  by (auto simp: checkOrder_def Let_def split: if_splits)

lemma checkOrder_store: "store (snd (checkOrder clk order sys)) = store sys"
  by (simp add: checkOrder_def Let_def halt_def emit_log_def)

lemma checkOrder_rejected_reason:
  "\<not> allowed (fst (checkOrder clk order sys)) \<Longrightarrow> reason (fst (checkOrder clk order sys)) \<noteq> None"
  by (auto simp: checkOrder_def Let_def split: if_splits)

lemma checkOrder_emitted:
  "emitted (snd (checkOrder clk order sys)) =
     emitted sys @ (if \<not> halted sys \<and> halted (snd (checkOrder clk order sys))
                    then [\<lparr>type_e = risk_breach,
                           data_e = RiskBreachData ''Daily loss limit exceeded'' (nowMs clk)\<rparr>]
                    else [])"
  by (simp add: checkOrder_def Let_def halt_def emit_log_def)

lemma getDailyPnl_loss: "getDailyPnl (store loss_system) (isoDay test_clock) = - 60"
  by (simp add: getDailyPnl_def loss_system_def test_clock_def empty_store_def fresh_system_def)

lemma getExposure_loss: "getExposure_total loss_system = 0"
  by (simp add: getExposure_total_def getAllPositions_def getOpenOrders_def loss_system_def
                empty_store_def fresh_system_def)

lemma loss_system_facts:
  "\<not> halted loss_system" "limits loss_system = test_limits"
  "getOpenOrders (store loss_system) = []" "emitted loss_system = []"
  by (simp_all add: loss_system_def fresh_system_def getOpenOrders_def empty_store_def)

lemma fresh_allowed:
  "checkOrder test_clock test_order fresh_system = (\<lparr>allowed = True, reason = None\<rparr>, fresh_system)"
  by (simp add: checkOrder_def Let_def fresh_system_def test_limits_def test_order_def
         getExposure_total_def getAllPositions_def getOpenOrders_def empty_store_def getDailyPnl_def)

lemma loss_rejected: "\<not> allowed (fst (checkOrder test_clock test_order loss_system))"
  by (simp add: checkOrder_def Let_def getDailyPnl_loss getExposure_loss
                loss_system_facts test_limits_def test_order_def)

text \<open>
  C3. An order that passes the first four checks (not halted, notional within
  \<open>max_position_size\<close>, exposure within \<open>max_total_exposure\<close>, open orders below
  \<open>max_open_orders\<close>) while the day's PnL is strictly below \<open>-max_daily_loss\<close> is
  rejected, the halt is latched, and exactly one \<open>risk_breach\<close> is emitted. Every later
  run of checks on the halted state rejects each order with the halt reason and leaves the
  state, and so the emitted events, as they were.
\<close>

theorem daily_loss_halt:
  assumes "\<not> halted sys"
    and "price_o order * size_o order \<le> maxPositionSize (limits sys)"
    and "getExposure_total sys + price_o order * size_o order \<le> maxTotalExposure (limits sys)"
    and "real (length (getOpenOrders (store sys))) < maxOpenOrders (limits sys)"
    and "getDailyPnl (store sys) (isoDay clk) < - maxDailyLoss (limits sys)"
  shows "(let (r, sys') = checkOrder clk order sys in
            allowed r = False
          \<and> isHalted sys'
          \<and> emitted sys' = emitted sys @
                [\<lparr>type_e = risk_breach,
                  data_e = RiskBreachData ''Daily loss limit exceeded'' (nowMs clk)\<rparr>]
          \<and> (\<forall>reqs. checkOrders reqs sys' =
                (replicate (length reqs)
                   \<lparr>allowed = False,
                    reason = Some [Txt ''Trading halted: '', Txt ''Daily loss limit exceeded'']\<rparr>,
                 sys')))"
proof -
  define sys' where "sys' = halt clk ''Daily loss limit exceeded'' sys"
  have co: "checkOrder clk order sys =
      (\<lparr>allowed = False,
        reason = Some [Txt ''Daily loss limit ('', Num (maxDailyLoss (limits sys)),
                       Txt '') exceeded'']\<rparr>, sys')"
    using assms by (simp add: checkOrder_def Let_def sys'_def)
  have h: "halted sys'" "haltReason sys' = Some ''Daily loss limit exceeded''"
    by (simp_all add: sys'_def halt_def emit_log_def)
  have e: "emitted sys' = emitted sys @
                [\<lparr>type_e = risk_breach,
                  data_e = RiskBreachData ''Daily loss limit exceeded'' (nowMs clk)\<rparr>]"
    by (simp add: sys'_def halt_def emit_log_def)
  show ?thesis
    using h e checkOrders_halted[OF h(1)] by (simp add: co isHalted_def haltedText_def)
qed

theorem daily_loss_halt_witness:
  "\<not> halted loss_system
   \<and> getDailyPnl (store loss_system) (isoDay test_clock) < - maxDailyLoss (limits loss_system)
   \<and> \<not> allowed (fst (checkOrder test_clock test_order loss_system))
   \<and> isHalted (snd (checkOrder test_clock test_order loss_system))
   \<and> length (filter (\<lambda>e. type_e e = risk_breach)
               (emitted (snd (checkOrder test_clock test_order loss_system)))) = 1
   \<and> fst (checkOrders [(test_clock, test_order), (test_clock, test_order)]
            (snd (checkOrder test_clock test_order loss_system)))
       = [\<lparr>allowed = False,
           reason = Some [Txt ''Trading halted: '', Txt ''Daily loss limit exceeded'']\<rparr>,
          \<lparr>allowed = False,
           reason = Some [Txt ''Trading halted: '', Txt ''Daily loss limit exceeded'']\<rparr>]"
  using daily_loss_halt[of loss_system test_order test_clock]
  by (simp add: getDailyPnl_loss getExposure_loss loss_system_facts test_limits_def
                test_order_def split_beta numeral_2_eq_2)

section \<open>Order submission\<close>

text \<open>
  C9, as stated: a rejected order leaves the store alone and emits no event. The
  daily-loss rejection emits \<open>risk_breach\<close> from inside the admission check: on the
  system that lost 60 against a limit of 50 the order is rejected and the bus has one
  event more than before.
\<close>

theorem rejected_order_emits_risk_breach:
  "\<not> allowed (fst (checkOrder test_clock test_order loss_system))
   \<and> fst (submitOrder dry_manager test_clock test_order loss_system)
       = \<lparr>success = False, orderId_r = None,
          error_r = Some [Txt ''Daily loss limit ('', Num 50, Txt '') exceeded''],
          filledSize = None, avgFillPrice = None\<rparr>
   \<and> emitted loss_system = []
   \<and> emitted (snd (submitOrder dry_manager test_clock test_order loss_system))
       = [\<lparr>type_e = risk_breach,
           data_e = RiskBreachData ''Daily loss limit exceeded'' (nowMs test_clock)\<rparr>]"
  by (simp add: submitOrder_def checkOrder_def Let_def getDailyPnl_loss getExposure_loss
                loss_system_facts test_limits_def test_order_def halt_def emit_log_def)

text \<open>
  C9, amended. For every order the risk manager rejects, \<open>submitOrder\<close> returns
  \<open>{success: false, error: reason}\<close> with the reason of the rejection, and the store is
  untouched: no order saved, no status changed, no position created or updated. The only
  event that can reach the bus is the single \<open>risk_breach\<close> of the daily-loss halt,
  emitted exactly when this rejection is the one that latches the halt.
\<close>

theorem rejected_order_frame:
  assumes "\<not> allowed (fst (checkOrder clk order sys))"
  shows "(let (res, sys') = submitOrder om clk order sys in
            res = \<lparr>success = False, orderId_r = None,
                   error_r = reason (fst (checkOrder clk order sys)),
                   filledSize = None, avgFillPrice = None\<rparr>
          \<and> error_r res \<noteq> None
          \<and> store sys' = store sys
          \<and> emitted sys' = emitted sys @
               (if \<not> halted sys \<and> halted sys'
                then [\<lparr>type_e = risk_breach,
                       data_e = RiskBreachData ''Daily loss limit exceeded'' (nowMs clk)\<rparr>]
                else []))"
  using assms checkOrder_rejected_reason[OF assms] checkOrder_store[of clk order sys]
        checkOrder_emitted[of clk order sys]
  by (simp add: submitOrder_def split_beta)

theorem rejected_order_frame_witness:
  "\<not> allowed (fst (checkOrder test_clock test_order loss_system))
   \<and> success (fst (submitOrder dry_manager test_clock test_order loss_system)) = False
   \<and> store (snd (submitOrder dry_manager test_clock test_order loss_system)) = store loss_system"
  using rejected_order_frame[OF loss_rejected, of dry_manager] loss_rejected
  by (simp add: split_beta)

text \<open>
  C10. In dry-run mode an order that passes the risk check is answered with
  \<open>{success: true, orderId}\<close>, the id being \<open>dry-\<close> followed by the clock reading, and
  nothing else happens: the whole state is the one before the call, so no order record is
  persisted and the open orders are unchanged, no position is created or updated, and
  no event is emitted.
\<close>

theorem dry_run_frame:
  assumes "dryRun om" and "allowed (fst (checkOrder clk order sys))"
  shows "(let (res, sys') = submitOrder om clk order sys in
            res = \<lparr>success = True,
                   orderId_r = Some [Txt ''dry-'', Num (real_of_int (nowMs clk))],
                   error_r = None, filledSize = None, avgFillPrice = None\<rparr>
          \<and> sys' = sys
          \<and> store sys' = store sys
          \<and> getOpenOrders (store sys') = getOpenOrders (store sys)
          \<and> (\<forall>t. getPosition (store sys') t = getPosition (store sys) t)
          \<and> emitted sys' = emitted sys)"
  using assms checkOrder_allowed_unchanged[OF assms(2)]
  by (simp add: submitOrder_def split_beta)

theorem dry_run_frame_witness:
  "dryRun dry_manager \<and> allowed (fst (checkOrder test_clock test_order fresh_system))
   \<and> submitOrder dry_manager test_clock test_order fresh_system
       = (\<lparr>success = True, orderId_r = Some [Txt ''dry-'', Num 1767600000000],
           error_r = None, filledSize = None, avgFillPrice = None\<rparr>, fresh_system)"
proof -
  have d: "dryRun dry_manager" by (simp add: dry_manager_def)
  have a: "allowed (fst (checkOrder test_clock test_order fresh_system))"
    by (simp add: fresh_allowed)
  have n: "nowMs test_clock = 1767600000000" by (simp add: test_clock_def)
  show ?thesis using d a dry_run_frame[OF d a] by (simp add: split_beta prod_eq_iff n)
qed

section \<open>Event delivery\<close>

subsection \<open>The handlers registered for a type\<close>










subsection \<open>One guarded call\<close>



lemma guarded_call:
  "try_catch (call_handler beh h event) (console_error ty) r = Normal (after_call beh ty event r h)"
  by (cases "beh h event (world r)")
     (simp_all add: try_catch_def call_handler_def console_error_def after_call_def Let_def)




subsection \<open>The loop\<close>






lemma three_handlers_entries:
  "three_handlers risk_breach = Some [Some 1, Some 2, Some 3]"
  by (simp add: three_handlers_def once_def on_def set_add_def Let_def)



subsection \<open>A loop that does not end\<close>

text \<open>
  When every handler subscribes a new one, the iterator never reaches the end of the
  entries: \<open>emit\<close> does not return.
\<close>

lemma ahead_step:
  assumes "ahead i r"
  shows "\<exists>entries. handlers (world r) risk_breach = Some entries \<and> i < length entries
           \<and> entries ! i = Some (Suc i)
           \<and> ahead (Suc i) (after_call restless risk_breach event r (Suc i))"
proof -
  from assms obtain n where n: "handlers (world r) risk_breach = Some (map Some [1..<Suc n])"
    and i: "i < n" by (auto simp: ahead_def)
  have nth: "map Some [1..<Suc n] ! i = Some (Suc i)" using i by (simp del: upt_Suc)
  have w: "handlers (world (after_call restless risk_breach event r (Suc i))) risk_breach
             = Some (set_add (Suc (Suc i)) (map Some [1..<Suc n]))"
    using n by (simp add: after_call_def restless_def on_def Let_def)
  have "ahead (Suc i) (after_call restless risk_breach event r (Suc i))"
  proof (cases "Suc i < n")
    case True
    then have "Some (Suc (Suc i)) \<in> set (map Some [1..<Suc n])" by (simp del: upt_Suc)
    then have "set_add (Suc (Suc i)) (map Some [1..<Suc n]) = map Some [1..<Suc n]"
      by (simp only: set_add_def if_True)
    with w have "handlers (world (after_call restless risk_breach event r (Suc i))) risk_breach
                   = Some (map Some [1..<Suc n])" by (simp only:)
    with True show ?thesis unfolding ahead_def by blast
  next
    case False
    with i have e: "n = Suc i" by simp
    have "Some (Suc (Suc i)) \<notin> set (map Some [1..<Suc n])" using e by (auto simp del: upt_Suc)
    then have "set_add (Suc (Suc i)) (map Some [1..<Suc n])
                 = map Some [1..<Suc n] @ [Some (Suc (Suc i))]"
      by (simp only: set_add_def if_False)
    also have "\<dots> = map Some [1..<Suc (Suc n)]"
      using e by (simp add: upt_Suc_append del: upt_Suc)
    finally have "handlers (world (after_call restless risk_breach event r (Suc i))) risk_breach
                   = Some (map Some [1..<Suc (Suc n)])" using w by (simp only:)
    moreover have "Suc i < Suc n" using i by simp
    ultimately show ?thesis unfolding ahead_def by blast
  qed
  with n i nth show ?thesis by (simp del: upt_Suc)
qed

lemma emit_loop_restless:
  assumes "emit_loop beh ty event i r = Some out"
  shows "\<not> (beh = restless \<and> ty = risk_breach \<and> ahead i r)"
proof (rule emit_loop.raw_induct
         [where P = "\<lambda>beh ty event i r out. \<not> (beh = restless \<and> ty = risk_breach \<and> ahead i r)",
          OF _ assms])
  fix emit_loop' and beh :: "hid \<Rightarrow> string BotEvent \<Rightarrow> nat World \<Rightarrow> nat World result"
    and ty event index r out
  assume IH: "\<And>b t e i' r0 y. emit_loop' b t e i' r0 = Some y
                \<Longrightarrow> \<not> (b = restless \<and> t = risk_breach \<and> ahead i' r0)"
    and body: "(case handlers (world r) ty of None \<Rightarrow> Some (Normal r)
      | Some entries \<Rightarrow>
          if index < length entries
          then case entries ! index of
               None \<Rightarrow> emit_loop' beh ty event (index + 1) r
               | Some handler \<Rightarrow>
                   case try_catch (call_handler beh handler event) (console_error ty) r of
                   Normal r' \<Rightarrow> emit_loop' beh ty event (index + 1) r'
                   | Abrupt e r' \<Rightarrow> Some (Abrupt e r')
          else Some (Normal r)) = Some out"
  show "\<not> (beh = restless \<and> ty = risk_breach \<and> ahead index r)"
  proof
    assume a: "beh = restless \<and> ty = risk_breach \<and> ahead index r"
    from ahead_step[of index r event] a obtain entries
      where "handlers (world r) risk_breach = Some entries" "index < length entries"
        "entries ! index = Some (Suc index)"
        and nxt: "ahead (Suc index) (after_call restless risk_breach event r (Suc index))"
      by blast
    with body a have "emit_loop' restless risk_breach event (Suc index)
                        (after_call restless risk_breach event r (Suc index)) = Some out"
      by (simp add: guarded_call)
    from IH[OF this] nxt show False by simp
  qed
qed

lemma emit_may_not_return: "emit restless test_clock risk_breach ''x'' fresh_run = None"
proof -
  have "ahead 0 fresh_run"
    unfolding ahead_def
    by (rule exI[of _ 3]) (simp add: fresh_run_def three_handlers_entries upt_rec)
  then have "emit_loop restless risk_breach breach_event 0 fresh_run = None"
    using emit_loop_restless[of restless risk_breach breach_event 0 fresh_run]
    by (cases "emit_loop restless risk_breach breach_event 0 fresh_run") auto
  then show ?thesis
    by (simp add: emit_def Let_def breach_event_def fresh_run_def three_handlers_entries)
qed

subsection \<open>What \<open>emit\<close> delivers\<close>




section \<open>Discovery\<close>

lemma yesTokens_snoc: "yesTokens p (ms @ [m]) =
   (let c = parseClobTokenIds p (clobTokenIds m) in
    if length c > 0 then yesTokens p ms @ [c ! 0] else yesTokens p ms)"
  by (simp add: yesTokens_def Let_def)

lemma extractEvent_cases:
  "extractEvent p groups ev = groups
   \<or> (\<exists>g. extractEvent p groups ev = groups @ [g] \<and> 2 \<le> length (tokenIds g))"
  by (auto simp: extractEvent_def Let_def split: option.splits)

lemma extractMarketGroups_snoc:
  "extractMarketGroups p (evs @ [ev]) = extractEvent p (extractMarketGroups p evs) ev"
  by (simp add: extractMarketGroups_def)

lemma extract_all_two:
  "list_all (\<lambda>g. 2 \<le> length (tokenIds g)) (extractMarketGroups p evs)"
proof (induction evs rule: rev_induct)
  case Nil
  then show ?case by (simp add: extractMarketGroups_def)
next
  case (snoc ev evs)
  from extractEvent_cases[of p "extractMarketGroups p evs" ev] snoc show ?case
    by (auto simp: extractMarketGroups_snoc)
qed

lemma single_market_binary:
  "markets ev = Some [m] \<Longrightarrow>
     extractMarketGroups p [ev] =
       (if length (parseClobTokenIds p (clobTokenIds m)) = 2
        then [\<lparr>conditionId = conditionId_m m, tokenIds = parseClobTokenIds p (clobTokenIds m)\<rparr>]
        else [])"
  by (simp add: extractMarketGroups_def extractEvent_def Let_def)

lemma fetch_emits:
  "emitted_g (fetchAndUpdate p (Inr events) svc) =
     emitted_g svc @
       (if hasChanged svc (extractMarketGroups p events)
        then [\<lparr>type_e = market_groups_updated,
               data_e = MarketGroupsData (extractMarketGroups p events)\<rparr>]
        else [])"
  by (simp add: fetchAndUpdate_def Let_def)

lemma fetch_settles:
  "\<not> hasChanged (fetchAndUpdate p (Inr events) svc) (extractMarketGroups p events)"
  by (simp add: fetchAndUpdate_def Let_def hasChanged_def)

text \<open>
  C6. Every market group that \<open>extractMarketGroups\<close> returns has at least two token
  ids, for every event list and every behaviour of the JSON parser. An event flagged
  negative-risk with exactly one sub-market takes the binary branch: it yields the group
  of both tokens when exactly two parse, and nothing otherwise. Every group list that
  \<open>fetchAndUpdate\<close> hands to the bus is such a list.
\<close>

theorem extracted_groups_have_two_tokens:
  "(\<forall>g \<in> set (extractMarketGroups p events). 2 \<le> length (tokenIds g))
   \<and> (\<forall>ev m. negRisk ev \<and> markets ev = Some [m] \<longrightarrow>
         extractMarketGroups p [ev] =
           (if length (parseClobTokenIds p (clobTokenIds m)) = 2
            then [\<lparr>conditionId = conditionId_m m,
                   tokenIds = parseClobTokenIds p (clobTokenIds m)\<rparr>]
            else []))
   \<and> (\<forall>svc response e gs. e \<in> set (emitted_g (fetchAndUpdate p response svc))
         \<and> e \<notin> set (emitted_g svc) \<and> data_e e = MarketGroupsData gs
         \<longrightarrow> (\<forall>g \<in> set gs. 2 \<le> length (tokenIds g)))"
proof -
  have a: "\<forall>g \<in> set (extractMarketGroups p evs). 2 \<le> length (tokenIds g)" for evs
    using extract_all_two[of p evs] by (simp add: list_all_iff)
  have c: "\<forall>g \<in> set gs. 2 \<le> length (tokenIds g)"
    if "e \<in> set (emitted_g (fetchAndUpdate p response svc))" "e \<notin> set (emitted_g svc)"
       "data_e e = MarketGroupsData gs" for svc response e gs
  proof (cases response)
    case (Inl err)
    with that show ?thesis by (simp add: fetchAndUpdate_def)
  next
    case (Inr evs)
    with that have "gs = extractMarketGroups p evs"
      by (auto simp: fetch_emits split: if_splits)
    with a show ?thesis by simp
  qed
  show ?thesis using a single_market_binary c by blast
qed

lemma toy_extract:
  "extractMarketGroups toy_parse [binary_event, multi_event, single_neg_event] =
     [\<lparr>conditionId = ''cond-1'', tokenIds = [''a'', ''b'']\<rparr>,
      \<lparr>conditionId = ''cond-1'', tokenIds = [''a'', ''c'', ''e'']\<rparr>,
      \<lparr>conditionId = ''cond-2'', tokenIds = [''c'', ''d'']\<rparr>]"
  by (simp add: extractMarketGroups_def extractEvent_def yesTokens_def parseClobTokenIds_def
        toy_parse_def binary_event_def multi_event_def single_neg_event_def
        market_ab_def market_cd_def market_ef_def Let_def)

theorem extracted_groups_have_two_tokens_witness:
  "extractMarketGroups toy_parse [binary_event, multi_event, single_neg_event] =
     [\<lparr>conditionId = ''cond-1'', tokenIds = [''a'', ''b'']\<rparr>,
      \<lparr>conditionId = ''cond-1'', tokenIds = [''a'', ''c'', ''e'']\<rparr>,
      \<lparr>conditionId = ''cond-2'', tokenIds = [''c'', ''d'']\<rparr>]
   \<and> list_all (\<lambda>g. 2 \<le> length (tokenIds g))
        (extractMarketGroups toy_parse [binary_event, multi_event, single_neg_event])
   \<and> negRisk single_neg_event \<and> markets single_neg_event = Some [market_cd]
   \<and> extractMarketGroups toy_parse [single_neg_event] =
        [\<lparr>conditionId = ''cond-2'', tokenIds = [''c'', ''d'']\<rparr>]"
proof -
  have n: "negRisk single_neg_event \<and> markets single_neg_event = Some [market_cd]"
    by (simp add: single_neg_event_def)
  have pc: "parseClobTokenIds toy_parse (clobTokenIds market_cd) = [''c'', ''d'']"
    by (simp add: parseClobTokenIds_def toy_parse_def market_cd_def)
  from extracted_groups_have_two_tokens[of toy_parse "[binary_event, multi_event, single_neg_event]"]
  have "(\<forall>g \<in> set (extractMarketGroups toy_parse [binary_event, multi_event, single_neg_event]).
           2 \<le> length (tokenIds g))"
    and "extractMarketGroups toy_parse [single_neg_event] =
           (if length (parseClobTokenIds toy_parse (clobTokenIds market_cd)) = 2
            then [\<lparr>conditionId = conditionId_m market_cd,
                   tokenIds = parseClobTokenIds toy_parse (clobTokenIds market_cd)\<rparr>]
            else [])"
    using n by blast+
  moreover have "conditionId_m market_cd = ''cond-2''" by (simp add: market_cd_def)
  ultimately show ?thesis using n toy_extract by (simp add: list_all_iff pc)
qed

text \<open>
  C7, as stated: the same event list fed twice emits \<open>market_groups_updated\<close> exactly
  once. A fresh service fed the empty event list twice emits nothing: the extracted list
  is empty, as is the stored one, and the first pass sees no change either.
\<close>

theorem unchanged_first_pass_emits_nothing:
  "extractMarketGroups toy_parse [] = []
   \<and> emitted_g fresh_gamma = []
   \<and> emitted_g (fetchAndUpdate toy_parse (Inr [])
                  (fetchAndUpdate toy_parse (Inr []) fresh_gamma)) = []"
  by (simp add: fetchAndUpdate_def extractMarketGroups_def hasChanged_def fresh_gamma_def
                serialize_def Let_def)

text \<open>
  C7, amended. Feeding the same event list through \<open>fetchAndUpdate\<close> twice in a row
  emits \<open>market_groups_updated\<close> at most once. The first pass emits exactly when the
  extracted list differs from the stored one, in length or in canonical serialization;
  the second pass finds the serializations equal and neither replaces the stored list nor
  emits. On a service that stores no group, a non-empty extracted list is emitted
  exactly once.
\<close>

theorem same_events_twice:
  "(let groups = extractMarketGroups p events;
        s1 = fetchAndUpdate p (Inr events) svc;
        s2 = fetchAndUpdate p (Inr events) s1
    in \<not> hasChanged s1 groups
     \<and> s2 = s1
     \<and> currentGroups s2 = currentGroups s1
     \<and> emitted_g s2 = emitted_g s1
     \<and> emitted_g s1 = emitted_g svc @
          (if hasChanged svc groups
           then [\<lparr>type_e = market_groups_updated, data_e = MarketGroupsData groups\<rparr>]
           else [])
     \<and> length (emitted_g s2) \<le> length (emitted_g svc) + 1
     \<and> (currentGroups svc = [] \<and> groups \<noteq> [] \<longrightarrow>
          emitted_g s2 = emitted_g svc @
            [\<lparr>type_e = market_groups_updated, data_e = MarketGroupsData groups\<rparr>]))"
  using fetch_settles[of p events svc] fetch_emits[of p events svc]
  by (auto simp: Let_def fetchAndUpdate_def hasChanged_def)

lemma toy_binary: "extractMarketGroups toy_parse [binary_event] =
     [\<lparr>conditionId = ''cond-1'', tokenIds = [''a'', ''b'']\<rparr>]"
  by (simp add: extractMarketGroups_def extractEvent_def parseClobTokenIds_def
        toy_parse_def binary_event_def market_ab_def Let_def)

theorem same_events_twice_witness:
  "emitted_g (fetchAndUpdate toy_parse (Inr [binary_event])
                (fetchAndUpdate toy_parse (Inr [binary_event]) fresh_gamma))
     = [\<lparr>type_e = market_groups_updated,
         data_e = MarketGroupsData [\<lparr>conditionId = ''cond-1'', tokenIds = [''a'', ''b'']\<rparr>]\<rparr>]"
proof -
  have h: "hasChanged fresh_gamma (extractMarketGroups toy_parse [binary_event])"
    by (simp add: toy_binary hasChanged_def fresh_gamma_def)
  show ?thesis
    using same_events_twice[of toy_parse "[binary_event]" fresh_gamma] h
    by (simp add: Let_def toy_binary fresh_gamma_def)
qed


section \<open>Arbitrage: the simple check\<close>

lemma index_inner:
  "foldl (\<lambda>m tokenId. m(tokenId \<mapsto> g)) m ts t = (if t \<in> set ts then Some g else m t)"
  by (induction ts arbitrary: m) auto

lemma index_fold_member:
  assumes "\<And>t g. m t = Some g \<Longrightarrow> t \<in> set (tokenIds g)"
    and "foldl (\<lambda>m grp. foldl (\<lambda>m tokenId. m(tokenId \<mapsto> grp)) m (tokenIds grp)) m groups t = Some g"
  shows "t \<in> set (tokenIds g)"
  using assms
proof (induction groups arbitrary: m)
  case Nil
  then show ?case by simp
next
  case (Cons a groups)
  show ?case
  proof (rule Cons.IH[of "foldl (\<lambda>m tokenId. m(tokenId \<mapsto> a)) m (tokenIds a)"])
    fix t' g'
    assume "foldl (\<lambda>m tokenId. m(tokenId \<mapsto> a)) m (tokenIds a) t' = Some g'"
    then show "t' \<in> set (tokenIds g')"
      using Cons.prems(1)[of t' g'] by (auto simp: index_inner split: if_splits)
  next
    show "foldl (\<lambda>m grp. foldl (\<lambda>m tokenId. m(tokenId \<mapsto> grp)) m (tokenIds grp))
            (foldl (\<lambda>m tokenId. m(tokenId \<mapsto> a)) m (tokenIds a)) groups t = Some g"
      using Cons.prems(2) by (simp only: foldl_Cons)
  qed
qed

lemma tokenIndex_member: "tokenIndex groups t = Some g \<Longrightarrow> t \<in> set (tokenIds g)"
  unfolding tokenIndex_def by (rule index_fold_member[of Map.empty]) auto

lemma gatherBooks_all:
  assumes "\<forall>t \<in> set ts. \<exists>b. bookOf ctx tokenId orderBook t = Some b
              \<and> \<not> real_of_int (now - timestamp_ob b) > maxStalenessMs cfg"
  shows "gatherBooks ctx cfg now tokenId orderBook ts books
           = Books (\<lambda>t. if t \<in> set ts then bookOf ctx tokenId orderBook t else books t)"
  using assms
proof (induction ts arbitrary: books)
  case Nil
  then show ?case by simp
next
  case (Cons s ts)
  from Cons.prems obtain b where b: "bookOf ctx tokenId orderBook s = Some b"
      "\<not> real_of_int (now - timestamp_ob b) > maxStalenessMs cfg" by auto
  have ih: "gatherBooks ctx cfg now tokenId orderBook ts (books(s \<mapsto> b))
           = Books (\<lambda>t. if t \<in> set ts then bookOf ctx tokenId orderBook t else (books(s \<mapsto> b)) t)"
    by (rule Cons.IH) (use Cons.prems in auto)
  have eq: "(\<lambda>t. if t \<in> set ts then bookOf ctx tokenId orderBook t else (books(s \<mapsto> b)) t)
          = (\<lambda>t. if t \<in> set (s # ts) then bookOf ctx tokenId orderBook t else books t)"
    using b(1) by (auto simp: fun_eq_iff)
  have step: "gatherBooks ctx cfg now tokenId orderBook (s # ts) books
            = gatherBooks ctx cfg now tokenId orderBook ts (books(s \<mapsto> b))"
    using b by (simp add: bookOf_def Let_def)
  show ?case by (simp only: step ih eq)
qed

lemma update_consistent:
  assumes "\<forall>(k, v) \<in> set al. v = f k"
  shows "\<forall>(k, v) \<in> set (AList.update t (f t) al). v = f k"
  using assms by (induction al) auto

lemma consistent_values:
  assumes "\<forall>(k, v) \<in> set al. v = f k"
  shows "set (map snd al) = f ` (fst ` set al)"
  using assms by (induction al) auto

lemma scanAsks_all:
  assumes "\<forall>t \<in> set ts. \<exists>b. books t = Some b \<and> asks b \<noteq> []"
    and "\<forall>(k, v) \<in> set P. v = price_l (hd (asks (the (books k))))"
    and "\<forall>(k, v) \<in> set Z. v = size_l (hd (asks (the (books k))))"
  shows "\<exists>P' Z'. scanAsks books ts (s, P, Z)
            = Completed (s + sum_list (map (\<lambda>t. price_l (hd (asks (the (books t))))) ts), P', Z')
          \<and> (\<forall>(k, v) \<in> set P'. v = price_l (hd (asks (the (books k)))))
          \<and> (\<forall>(k, v) \<in> set Z'. v = size_l (hd (asks (the (books k)))))
          \<and> fst ` set P' = fst ` set P \<union> set ts
          \<and> fst ` set Z' = fst ` set Z \<union> set ts"
  using assms
proof (induction ts arbitrary: s P Z)
  case Nil
  then show ?case by simp
next
  case (Cons t ts)
  from Cons.prems(1) obtain b where b: "books t = Some b" "asks b \<noteq> []" by auto
  let ?p = "price_l (hd (asks (the (books t))))"
  let ?z = "size_l (hd (asks (the (books t))))"
  have hd0: "asks b ! 0 = hd (asks b)" using b(2) by (simp add: hd_conv_nth)
  have P: "\<forall>(k, v) \<in> set (AList.update t ?p P). v = price_l (hd (asks (the (books k))))"
    using update_consistent[of P "\<lambda>k. price_l (hd (asks (the (books k))))" t] Cons.prems(2) by simp
  have Z: "\<forall>(k, v) \<in> set (AList.update t ?z Z). v = size_l (hd (asks (the (books k))))"
    using update_consistent[of Z "\<lambda>k. size_l (hd (asks (the (books k))))" t] Cons.prems(3) by simp
  from Cons.IH[OF _ P Z, of "s + ?p"] Cons.prems(1)
  obtain P' Z' where r: "scanAsks books ts (s + ?p, AList.update t ?p P, AList.update t ?z Z)
            = Completed (s + ?p + sum_list (map (\<lambda>t. price_l (hd (asks (the (books t))))) ts), P', Z')"
     "\<forall>(k, v) \<in> set P'. v = price_l (hd (asks (the (books k))))"
     "\<forall>(k, v) \<in> set Z'. v = size_l (hd (asks (the (books k))))"
     "fst ` set P' = fst ` set (AList.update t ?p P) \<union> set ts"
     "fst ` set Z' = fst ` set (AList.update t ?z Z) \<union> set ts"
    by auto
  have "scanAsks books (t # ts) (s, P, Z)
      = Completed (s + sum_list (map (\<lambda>t. price_l (hd (asks (the (books t))))) (t # ts)), P', Z')"
    using b r(1) hd0 by (simp add: Let_def add.assoc)
  moreover have "fst ` set P' = fst ` set P \<union> set (t # ts)"
    using r(4) by (simp add: AList.dom_update)
  moreover have "fst ` set Z' = fst ` set Z \<union> set (t # ts)"
    using r(5) by (simp add: AList.dom_update)
  ultimately show ?case using r(2,3) by blast
qed

lemma consistent_lookup:
  assumes "\<forall>(k, v) \<in> set al. v = f k" "t \<in> fst ` set al"
  shows "map_of al t = Some (f t)"
  using assms by (induction al) (auto split: if_splits)

lemma capacity_fold:
  "foldl (\<lambda>sz t. min sz (c t)) s0 ts = Min (insert s0 (c ` set ts))"
proof (induction ts arbitrary: s0)
  case Nil
  then show ?case by simp
next
  case (Cons t ts)
  have "Min (insert (min s0 (c t)) (c ` set ts)) = Min (insert s0 (insert (c t) (c ` set ts)))"
    by (cases "c ` set ts = {}") (simp_all add: min.assoc)
  with Cons.IH[of "min s0 (c t)"] show ?case by simp
qed

lemma foldl_min_Min: "foldl min x xs = Min (set (x # xs))"
  using capacity_fold[of "\<lambda>t. t" x xs] by simp

lemma math_min_Min: "xs \<noteq> [] \<Longrightarrow> math_min xs = Some (Min (set xs))"
  by (cases xs) (simp_all add: math_min_def foldl_min_Min del: Min_insert)

lemma Min_three:
  assumes "finite F" "F \<noteq> {}" "finite C" "C \<noteq> {}"
  shows "Min (insert (min (x::real) (Min F)) C) = Min ({x} \<union> F \<union> C)"
proof -
  have "Min ({x} \<union> F \<union> C) = min (min x (Min F)) (Min C)"
    using assms by (simp add: Min_Un)
  then show ?thesis using assms by simp
qed

lemma checkSimpleArb_signals:
  fixes bestAsk :: "string \<Rightarrow> PriceLevel"
  assumes ne: "tokenIds grp \<noteq> []"
    and bk: "\<forall>t \<in> set (tokenIds grp). \<exists>b. books t = Some b \<and> asks b \<noteq> []"
    and ba: "bestAsk = (\<lambda>t. hd (asks (the (books t))))"
    and E: "E = 1 - sum_list (map (\<lambda>t. price_l (bestAsk t)) (tokenIds grp)) * (1 + feeRate cfg)"
    and sz: "sz = Min ({orderSize cfg}
                  \<union> (\<lambda>t. size_l (bestAsk t)) ` set (tokenIds grp)
                  \<union> (\<lambda>t. maxPositionSize_c cfg
                            - (case getPosition_om ctx t of None \<Rightarrow> 0 | Some p \<Rightarrow> size_p p))
                      ` set (tokenIds grp))"
    and edge: "minEdge cfg \<le> E"
    and pos: "0 < sz"
  shows "checkSimpleArb ctx cfg grp books =
           Inr (map (\<lambda>t. \<lparr>tokenId_s = t, side_s = BUY,
                           confidence = min (E / minEdge cfg) 1,
                           targetPrice = price_l (bestAsk t),
                           size_s = sz,
                           reason_s = [Txt ''Simple arb: askSum='',
                                       Fixed (sum_list (map (\<lambda>t. price_l (bestAsk t)) (tokenIds grp))) 4,
                                       Txt '' edge='', Fixed (E * 100) 2, Txt ''%'']\<rparr>)
                    (tokenIds grp))"
proof -
  let ?ts = "tokenIds grp"
  let ?S = "sum_list (map (\<lambda>t. price_l (bestAsk t)) ?ts)"
  let ?cap = "\<lambda>t. maxPositionSize_c cfg
                 - (case getPosition_om ctx t of None \<Rightarrow> 0 | Some p \<Rightarrow> size_p p)"
  from scanAsks_all[OF bk, of "[]" "[]" 0]
  obtain P' Z' where sc: "scanAsks books ?ts (0, [], []) = Completed (?S, P', Z')"
    and P: "\<forall>(k, v) \<in> set P'. v = price_l (bestAsk k)"
    and Z: "\<forall>(k, v) \<in> set Z'. v = size_l (bestAsk k)"
    and dP: "fst ` set P' = set ?ts" and dZ: "fst ` set Z' = set ?ts"
    unfolding ba by auto
  have vals: "set (map snd Z') = (\<lambda>t. size_l (bestAsk t)) ` set ?ts"
    using consistent_values[OF Z] dZ by simp
  have Zne: "map snd Z' \<noteq> []" using vals ne by auto
  have ml: "math_min (map snd Z') = Some (Min ((\<lambda>t. size_l (bestAsk t)) ` set ?ts))"
    using math_min_Min[OF Zne] vals by simp
  have fold: "foldl (\<lambda>sz t. min sz (?cap t))
              (min (orderSize cfg) (Min ((\<lambda>t. size_l (bestAsk t)) ` set ?ts))) ?ts = sz"
  proof -
    have "foldl (\<lambda>sz t. min sz (?cap t))
            (min (orderSize cfg) (Min ((\<lambda>t. size_l (bestAsk t)) ` set ?ts))) ?ts
          = Min (insert (min (orderSize cfg) (Min ((\<lambda>t. size_l (bestAsk t)) ` set ?ts)))
                   (?cap ` set ?ts))"
      by (rule capacity_fold)
    also have "\<dots> = sz"
      unfolding sz using ne by (intro Min_three) auto
    finally show ?thesis .
  qed
  have look: "the (map_of P' t) = price_l (bestAsk t)" if "t \<in> set ?ts" for t
    using consistent_lookup[OF P, of t] that dP by simp
  have notlt: "\<not> 1 - ?S * (1 + feeRate cfg) < minEdge cfg" using edge E by simp
  have notle: "\<not> sz \<le> 0" using pos by simp
  show ?thesis
    unfolding checkSimpleArb_def sc
    using notlt notle look
    by (simp add: ml fold Let_def E [symmetric] del: foldl_Cons)
qed

text \<open>
  C4. Let the strategy be enabled, with its token index built from its groups, and let the
  trigger token belong to a group all of whose books are at hand, fresh, and have a
  non-empty ask side. Let \<open>E = 1 - (\<Sum> best ask price) \<times> (1 + fee_rate)\<close>, and let
  \<open>sz\<close> be the least of the base order size, the best-ask sizes of the group, and the
  remaining capacities \<open>max_position_size - current signed size\<close> of its tokens. If
  \<open>E \<ge> min_edge\<close> and \<open>sz > 0\<close>, then \<open>evaluate\<close> returns exactly one BUY signal per
  token of the group, in group order, each at that token's best ask price, all of size
  \<open>sz\<close>, with confidence \<open>min(E / min_edge, 1)\<close>. The counters show that the Bregman
  check was not reached: only \<open>evaluations\<close> and \<open>simpleArbSignals\<close> move.
\<close>

theorem simple_arb_signals:
  fixes bestAsk :: "string \<Rightarrow> PriceLevel"
  assumes en: "enabled strat"
    and idx: "tokenToGroup strat = tokenIndex (marketGroups strat)"
    and grp: "tokenToGroup strat tokenId = Some grp"
    and bk: "\<forall>t \<in> set (tokenIds grp). \<exists>b. bookOf ctx tokenId orderBook t = Some b
                \<and> real_of_int (now - timestamp_ob b) \<le> maxStalenessMs (config strat)
                \<and> asks b \<noteq> []"
    and ba: "bestAsk = (\<lambda>t. hd (asks (the (bookOf ctx tokenId orderBook t))))"
    and E: "E = 1 - sum_list (map (\<lambda>t. price_l (bestAsk t)) (tokenIds grp))
                    * (1 + feeRate (config strat))"
    and sz: "sz = Min ({orderSize (config strat)}
                  \<union> (\<lambda>t. size_l (bestAsk t)) ` set (tokenIds grp)
                  \<union> (\<lambda>t. maxPositionSize_c (config strat)
                            - (case getPosition_om ctx t of None \<Rightarrow> 0 | Some p \<Rightarrow> size_p p))
                      ` set (tokenIds grp))"
    and nz: "minEdge (config strat) \<noteq> 0"
    and edge: "minEdge (config strat) \<le> E"
    and pos: "0 < sz"
  shows "evaluate ctx now tokenId orderBook strat =
           (Inr (map (\<lambda>t. \<lparr>tokenId_s = t, side_s = BUY,
                            confidence = min (E / minEdge (config strat)) 1,
                            targetPrice = price_l (bestAsk t),
                            size_s = sz,
                            reason_s = [Txt ''Simple arb: askSum='',
                                        Fixed (sum_list (map (\<lambda>t. price_l (bestAsk t)) (tokenIds grp))) 4,
                                        Txt '' edge='', Fixed (E * 100) 2, Txt ''%'']\<rparr>)
                     (tokenIds grp)),
            strat\<lparr>stats := (stats strat)\<lparr>evaluations := evaluations (stats strat) + 1,
                                          simpleArbSignals := simpleArbSignals (stats strat)
                                                              + length (tokenIds grp)\<rparr>\<rparr>)"
proof -
  let ?ts = "tokenIds grp"
  let ?books = "\<lambda>t. if t \<in> set ?ts then bookOf ctx tokenId orderBook t else None"
  have mem: "tokenId \<in> set ?ts" using tokenIndex_member[of "marketGroups strat" tokenId grp] idx grp by simp
  then have ne: "?ts \<noteq> []" by auto
  have g: "gatherBooks ctx (config strat) now tokenId orderBook ?ts Map.empty = Books ?books"
    by (rule gatherBooks_all) (use bk in force)
  have bk': "\<forall>t \<in> set ?ts. \<exists>b. ?books t = Some b \<and> asks b \<noteq> []" using bk by auto
  have ba': "bestAsk t = hd (asks (the (?books t)))" if "t \<in> set ?ts" for t
    using that ba by simp
  define bestAsk' where "bestAsk' = (\<lambda>t. hd (asks (the (?books t))))"
  have same: "bestAsk' t = bestAsk t" if "t \<in> set ?ts" for t
    using ba'[OF that] by (simp add: bestAsk'_def)
  have sums: "sum_list (map (\<lambda>t. price_l (bestAsk' t)) ?ts) = sum_list (map (\<lambda>t. price_l (bestAsk t)) ?ts)"
    by (rule arg_cong[where f = sum_list], rule map_cong) (simp_all add: same)
  have imgs: "(\<lambda>t. size_l (bestAsk' t)) ` set ?ts = (\<lambda>t. size_l (bestAsk t)) ` set ?ts"
    by (rule image_cong) (simp_all add: same)
  have maps: "map (\<lambda>t. \<lparr>tokenId_s = t, side_s = BUY,
                            confidence = min (E / minEdge (config strat)) 1,
                            targetPrice = price_l (bestAsk' t),
                            size_s = sz,
                            reason_s = [Txt ''Simple arb: askSum='',
                                        Fixed (sum_list (map (\<lambda>t. price_l (bestAsk' t)) ?ts)) 4,
                                        Txt '' edge='', Fixed (E * 100) 2, Txt ''%'']\<rparr>) ?ts
            = map (\<lambda>t. \<lparr>tokenId_s = t, side_s = BUY,
                            confidence = min (E / minEdge (config strat)) 1,
                            targetPrice = price_l (bestAsk t),
                            size_s = sz,
                            reason_s = [Txt ''Simple arb: askSum='',
                                        Fixed (sum_list (map (\<lambda>t. price_l (bestAsk t)) ?ts)) 4,
                                        Txt '' edge='', Fixed (E * 100) 2, Txt ''%'']\<rparr>) ?ts"
    unfolding sums by (rule map_cong) (simp_all add: same)
  have cs: "checkSimpleArb ctx (config strat) grp ?books =
           Inr (map (\<lambda>t. \<lparr>tokenId_s = t, side_s = BUY,
                            confidence = min (E / minEdge (config strat)) 1,
                            targetPrice = price_l (bestAsk t),
                            size_s = sz,
                            reason_s = [Txt ''Simple arb: askSum='',
                                        Fixed (sum_list (map (\<lambda>t. price_l (bestAsk t)) ?ts)) 4,
                                        Txt '' edge='', Fixed (E * 100) 2, Txt ''%'']\<rparr>) ?ts)"
    unfolding maps[symmetric]
    by (rule checkSimpleArb_signals[OF ne bk' bestAsk'_def _ _ edge pos])
       (simp_all only: sums imgs E sz)
  show ?thesis
    using en grp ne by (simp add: evaluate_def Let_def g cs)
qed

lemma three_way_books:
  "t \<in> set (tokenIds three_way) \<Longrightarrow>
     bookOf three_way_ctx ''A'' (quarter_book ''A'') t = Some (quarter_book t)"
  by (auto simp: bookOf_def three_way_ctx_def)

theorem simple_arb_signals_witness:
  "evaluate three_way_ctx 1000 ''A'' (quarter_book ''A'') (new_strategy [three_way] default_config)
   = (Inr (map (\<lambda>t. \<lparr>tokenId_s = t, side_s = BUY, confidence = 1, targetPrice = 25/100,
                       size_s = 10,
                       reason_s = [Txt ''Simple arb: askSum='', Fixed (75/100) 4,
                                   Txt '' edge='', Fixed (235/10) 2, Txt ''%'']\<rparr>)
               [''A'', ''B'', ''C'']),
      (new_strategy [three_way] default_config)
        \<lparr>stats := zero_stats\<lparr>evaluations := 1, simpleArbSignals := 3\<rparr>\<rparr>)"
proof -
  let ?strat = "new_strategy [three_way] default_config"
  define bestAsk where
    "bestAsk = (\<lambda>t. hd (asks (the (bookOf three_way_ctx ''A'' (quarter_book ''A'') t))))"
  define E where "E = 1 - sum_list (map (\<lambda>t. price_l (bestAsk t)) (tokenIds three_way))
                    * (1 + feeRate (config ?strat))"
  define sz where "sz = Min ({orderSize (config ?strat)}
                  \<union> (\<lambda>t. size_l (bestAsk t)) ` set (tokenIds three_way)
                  \<union> (\<lambda>t. maxPositionSize_c (config ?strat)
                            - (case getPosition_om three_way_ctx t of None \<Rightarrow> 0 | Some p \<Rightarrow> size_p p))
                      ` set (tokenIds three_way))"
  have cfg: "feeRate (config ?strat) = 2/100" "minEdge (config ?strat) = 1/100"
      "orderSize (config ?strat) = 10" "maxPositionSize_c (config ?strat) = 50"
      "maxStalenessMs (config ?strat) = 5000" "stats ?strat = zero_stats"
    by (simp_all add: new_strategy_def default_config_def)
  have ts: "tokenIds three_way = [''A'', ''B'', ''C'']" by (simp add: three_way_def)
  have ask: "bestAsk t = \<lparr>price_l = 25/100, size_l = 30\<rparr>" if "t \<in> set (tokenIds three_way)" for t
    using three_way_books[OF that] by (simp add: bestAsk_def quarter_book_def)
  have Ev: "E = 235/1000"
    by (simp add: E_def cfg ts ask)
  have szv: "sz = 10"
    by (simp add: sz_def cfg ts ask three_way_ctx_def)
  have en: "enabled ?strat" by (simp add: new_strategy_def)
  have idx: "tokenToGroup ?strat = tokenIndex (marketGroups ?strat)" by (simp add: new_strategy_def)
  have grp: "tokenToGroup ?strat ''A'' = Some three_way"
    by (simp add: new_strategy_def tokenIndex_def three_way_def)
  have bk: "\<forall>t \<in> set (tokenIds three_way). \<exists>b.
              bookOf three_way_ctx ''A'' (quarter_book ''A'') t = Some b
              \<and> real_of_int (1000 - timestamp_ob b) \<le> maxStalenessMs (config ?strat)
              \<and> asks b \<noteq> []"
    using three_way_books by (simp add: cfg quarter_book_def)
  have nz: "minEdge (config ?strat) \<noteq> 0" by (simp add: cfg)
  have edge: "minEdge (config ?strat) \<le> E" by (simp add: Ev cfg)
  have pos: "0 < sz" by (simp add: szv)
  have pr: "map (\<lambda>t. price_l (bestAsk t)) (tokenIds three_way) = [25/100, 25/100, 25/100]"
    by (simp add: ts ask)
  show ?thesis
    using simple_arb_signals[OF en idx grp bk bestAsk_def E_def sz_def nz edge pos]
    by (simp add: Ev szv cfg ts ask zero_stats_def numeral_3_eq_3)
qed

section \<open>Arbitrage: the Bregman check\<close>

lemma exp_taylor5:
  fixes x :: real
  assumes "0 \<le> x" "x \<le> 1/2"
  shows "1 + x + x^2/2 + x^3/6 + x^4/24 \<le> exp x"
    and "exp x \<le> 1 + x + x^2/2 + x^3/6 + x^4/24 + x^5/60"
proof -
  obtain t where t: "\<bar>t\<bar> \<le> \<bar>x\<bar>"
      "exp x = (\<Sum>m<5. (x ^ m) / fact m) + (exp t / fact 5) * x ^ 5"
    using Maclaurin_exp_le[of x 5] by blast
  have s: "(\<Sum>m<5. (x ^ m) / fact m) = 1 + x + x^2/2 + x^3/6 + x^4/24"
    by (simp add: numeral_eq_Suc)
  have f5: "fact 5 = (120::real)" by (simp add: numeral_eq_Suc)
  have "t \<le> 1/2" using t(1) assms by linarith
  then have "exp t \<le> exp (1/2)" by simp
  also have "exp (1/2 :: real) \<le> 1 + 1/2 + (1/2)\<^sup>2" by (rule exp_bound) simp_all
  finally have et: "exp t \<le> 2" by (simp add: power2_eq_square)
  have x5: "0 \<le> x^5" using assms by simp
  have "0 \<le> exp t / 120 * x^5" using x5 by simp
  then show "1 + x + x^2/2 + x^3/6 + x^4/24 \<le> exp x"
    unfolding t(2) s f5 by linarith
  have "exp t / 120 * x^5 \<le> 2 / 120 * x^5"
    using et x5 by (intro mult_right_mono divide_right_mono) simp_all
  then show "exp x \<le> 1 + x + x^2/2 + x^3/6 + x^4/24 + x^5/60"
    unfolding t(2) s f5 by simp
qed

lemma ln_5_4_bounds: "2231/10000 \<le> ln (5/4 :: real)" "ln (5/4 :: real) \<le> 2232/10000"
proof -
  have "exp (2231/10000 :: real) \<le> 5/4"
    using exp_taylor5(2)[of "2231/10000"] by (simp add: power_numeral_reduce)
  moreover have "(2231/10000 \<le> ln (5/4 :: real)) = (exp (2231/10000) \<le> (5/4 :: real))"
    by (rule ln_ge_iff) simp
  ultimately show "2231/10000 \<le> ln (5/4 :: real)" by blast
  have "5/4 \<le> exp (2232/10000 :: real)"
    using exp_taylor5(1)[of "2232/10000"] by (simp add: power_numeral_reduce)
  moreover have "ln (exp (2232/10000 :: real)) = 2232/10000" by (rule ln_exp)
  moreover have "ln (5/4 :: real) \<le> ln (exp (2232/10000))"
    if "5/4 \<le> exp (2232/10000 :: real)"
    using that by (subst ln_le_cancel_iff) simp_all
  ultimately show "ln (5/4 :: real) \<le> 2232/10000" by simp
qed

lemma kl_binary_80_20:
  "1/2 * ln ((1/2) / (4/5 :: real)) + 1/2 * ln ((1/2) / (1/5 :: real)) = ln (5/4)"
proof -
  have "ln (5/8 :: real) + ln (5/2) = ln ((5/8) * (5/2))"
    by (rule ln_mult_pos[symmetric]) simp_all
  also have "(5/8) * (5/2) = ((5/4) * (5/4) :: real)" by simp
  also have "ln ((5/4) * (5/4) :: real) = ln (5/4) + ln (5/4)"
    by (rule ln_mult_pos) simp_all
  finally show ?thesis by simp
qed

lemma those_present:
  "\<forall>t \<in> set ts. \<exists>b. books t = Some b \<Longrightarrow>
     those (map books ts) = Some (map (\<lambda>t. the (books t)) ts)"
  by (induction ts) auto

lemma foldl_plus_sum: "foldl (+) a xs = a + sum_list (xs :: real list)"
  by (induction xs arbitrary: a) (simp_all add: add.assoc)

lemma klLoop_positive:
  "\<forall>q \<in> set qs. 0 < q \<Longrightarrow>
     klLoop u qs k = Some (k + sum_list (map (\<lambda>q. u * ln (u / q)) qs))"
  by (induction qs arbitrary: k) (simp_all add: add.assoc)

lemma minProbLoop_step:
  "1 \<le> k \<Longrightarrow> minProbLoop qs (Suc k) =
     (if qs ! k < qs ! (minProbLoop qs k) then k else minProbLoop qs k)"
  by (simp add: minProbLoop_def)

lemma minProbLoop_first_min:
  "1 \<le> k \<Longrightarrow>
     minProbLoop qs k < k
     \<and> (\<forall>j < k. qs ! (minProbLoop qs k) \<le> qs ! j)
     \<and> (\<forall>j < minProbLoop qs k. qs ! (minProbLoop qs k) < qs ! j)"
proof (induction k rule: nat_induct_at_least)
  case base
  then show ?case by (simp add: minProbLoop_def)
next
  case (Suc k)
  show ?case
  proof (cases "qs ! k < qs ! (minProbLoop qs k)")
    case True
    then have m: "minProbLoop qs (Suc k) = k" using Suc.hyps by (simp add: minProbLoop_step)
    have "\<forall>j < Suc k. qs ! k \<le> qs ! j"
      using Suc.IH True by (auto simp: less_Suc_eq intro: less_imp_le order.strict_trans2)
    moreover have "\<forall>j < k. qs ! k < qs ! j"
      using Suc.IH True by (auto intro: order.strict_trans2)
    ultimately show ?thesis by (simp add: m)
  next
    case False
    then have m: "minProbLoop qs (Suc k) = minProbLoop qs k"
      using Suc.hyps by (simp add: minProbLoop_step)
    show ?thesis using Suc.IH False by (auto simp: m less_Suc_eq)
  qed
qed

lemma checkBregmanArb_closed:
  fixes D :: real
  assumes bk: "\<forall>t \<in> set (tokenIds grp). \<exists>b. books t = Some b"
    and mids: "mids = map (\<lambda>t. midPrice (the (books t))) (tokenIds grp)"
    and ps: "sum_list mids \<noteq> 0"
    and q: "q = map (\<lambda>p. p / sum_list mids) mids"
    and qpos: "\<forall>x \<in> set q. 0 < x"
    and D: "D = sum_list (map (\<lambda>x. 1 / real (length q) * ln (1 / real (length q) / x)) q)"
    and i: "i = minProbLoop q (length q)"
    and cur: "cur = (case getPosition_om ctx (tokenIds grp ! i) of None \<Rightarrow> 0 | Some p \<Rightarrow> size_p p)"
    and book: "book = the (books (tokenIds grp ! i))"
    and sz: "sz = min (min (orderSize cfg * min (D / divergenceThreshold cfg) 2)
                          (if asks book \<noteq> [] then size_l (hd (asks book)) else 0))
                     (maxPositionSize_c cfg - cur)"
  shows "checkBregmanArb ctx cfg grp books =
           (if D < divergenceThreshold cfg \<or> sz \<le> 0 then Inr []
            else Inr [\<lparr>tokenId_s = tokenIds grp ! i, side_s = BUY,
                       confidence = min (D / (divergenceThreshold cfg * 2)) 1,
                       targetPrice = price_l (hd (asks book)),
                       size_s = sz,
                       reason_s = [Txt ''Bregman projection: KL='', Fixed D 4,
                                   Txt '' underpriced='', Txt (take 8 (tokenIds grp ! i))]\<rparr>])"
    and "i < length (tokenIds grp)"
    and "\<forall>j < length q. q ! i \<le> q ! j"
proof -
  let ?ts = "tokenIds grp"
  have len: "length q = length ?ts" by (simp add: q mids)
  have ne: "?ts \<noteq> []" using ps mids by auto
  then have n1: "1 \<le> length q" using len by (cases ?ts) simp_all
  from minProbLoop_first_min[OF n1] i
  have il: "i < length q" and imin: "\<forall>j < length q. q ! i \<le> q ! j" by simp_all
  show "i < length (tokenIds grp)" using il len by simp
  show "\<forall>j < length q. q ! i \<le> q ! j" by (rule imin)
  have th: "those (map books ?ts) = Some (map (\<lambda>t. the (books t)) ?ts)"
    by (rule those_present[OF bk])
  have mp: "map midPrice (map (\<lambda>t. the (books t)) ?ts) = mids" by (simp add: mids)
  have kl: "klLoop (1 / real (length ?ts)) q 0 = Some D"
    using klLoop_positive[OF qpos, of "1 / real (length ?ts)" 0] by (simp add: D len)
  have kl': "klLoop (1 / real (length q)) q 0 = Some D"
    using kl by (simp add: len)
  obtain b where b: "books (?ts ! i) = Some b"
    using bk il len by (metis nth_mem)
  have bb: "book = b" using b book by simp
  have capz: "sz \<le> 0" if "maxPositionSize_c cfg \<le> cur"
    using that unfolding sz by (simp add: min_le_iff_disj)
  have emp: "sz \<le> 0" if "asks book = []"
    using that unfolding sz by (simp add: min_le_iff_disj)
  have hd0: "asks book ! 0 = hd (asks book)" if "asks book \<noteq> []"
    using that by (simp add: hd_conv_nth)
  show "checkBregmanArb ctx cfg grp books =
           (if D < divergenceThreshold cfg \<or> sz \<le> 0 then Inr []
            else Inr [\<lparr>tokenId_s = tokenIds grp ! i, side_s = BUY,
                       confidence = min (D / (divergenceThreshold cfg * 2)) 1,
                       targetPrice = price_l (hd (asks book)),
                       size_s = sz,
                       reason_s = [Txt ''Bregman projection: KL='', Fixed D 4,
                                   Txt '' underpriced='', Txt (take 8 (tokenIds grp ! i))]\<rparr>])"
  proof (cases "D < divergenceThreshold cfg")
    case True
    then show ?thesis
      using ps by (simp add: checkBregmanArb_def Let_def th mp foldl_plus_sum q[symmetric] kl del: map_map)
  next
    case nlt: False
    show ?thesis
    proof (cases "maxPositionSize_c cfg \<le> cur")
      case True
      then show ?thesis
        using ps nlt capz
        by (simp add: checkBregmanArb_def Let_def th mp foldl_plus_sum q[symmetric] kl'
                      i[symmetric] len[symmetric] b cur[symmetric] del: map_map)
    next
      case ncap: False
      show ?thesis
      proof (cases "asks book = []")
        case True
        then show ?thesis
          using ps nlt ncap emp True sz
          by (simp add: checkBregmanArb_def Let_def th mp foldl_plus_sum q[symmetric] kl'
                        i[symmetric] len[symmetric] b cur[symmetric] bb[symmetric] del: map_map)
      next
        case False
        then have szc: "min (min (orderSize cfg * min (D / divergenceThreshold cfg) 2)
                                 (size_l (hd (asks book))))
                            (maxPositionSize_c cfg - cur) = sz"
          unfolding sz by simp
        from False show ?thesis
          using ps nlt ncap hd0
          by (simp add: checkBregmanArb_def Let_def th mp foldl_plus_sum q[symmetric] kl'
                        i[symmetric] len[symmetric] b cur[symmetric] bb[symmetric] szc
                   del: map_map)
      qed
    qed
  qed
qed

lemma checkSimpleArb_no_edge:
  assumes bk: "\<forall>t \<in> set (tokenIds grp). \<exists>b. books t = Some b \<and> asks b \<noteq> []"
    and lt: "1 - sum_list (map (\<lambda>t. price_l (hd (asks (the (books t))))) (tokenIds grp))
                 * (1 + feeRate cfg) < minEdge cfg"
  shows "checkSimpleArb ctx cfg grp books = Inr []"
proof -
  from scanAsks_all[OF bk, of "[]" "[]" 0]
  obtain P' Z' where sc: "scanAsks books (tokenIds grp) (0, [], [])
      = Completed (sum_list (map (\<lambda>t. price_l (hd (asks (the (books t))))) (tokenIds grp)), P', Z')"
    by auto
  show ?thesis unfolding checkSimpleArb_def sc using lt by (simp add: Let_def)
qed

lemma kl_80_20_value:
  "sum_list (map (\<lambda>x. 1 / real (length [4/5, 1/5 :: real]) * ln (1 / real (length [4/5, 1/5 :: real]) / x))
                 [4/5, 1/5 :: real]) = ln (5/4)"
  using kl_binary_80_20 by simp

lemma evaluate_binary_80_20:
  assumes en: "enabled strat"
    and idx: "tokenToGroup strat = tokenIndex (marketGroups strat)"
    and grp: "tokenToGroup strat tokenId = Some grp"
    and ts: "tokenIds grp = [a, b]"
    and ba: "bookOf ctx tokenId orderBook a = Some bookA"
    and bb: "bookOf ctx tokenId orderBook b = Some bookB"
    and fa: "real_of_int (now - timestamp_ob bookA) \<le> maxStalenessMs (config strat)"
    and fb: "real_of_int (now - timestamp_ob bookB) \<le> maxStalenessMs (config strat)"
    and ma: "midPrice bookA = 8/10" and mb: "midPrice bookB = 2/10"
    and aa: "asks bookA \<noteq> []" and ab: "asks bookB \<noteq> []"
    and noedge: "1 - (price_l (hd (asks bookA)) + price_l (hd (asks bookB)))
                       * (1 + feeRate (config strat)) < minEdge (config strat)"
    and thr: "divergenceThreshold (config strat) = 5/100"
    and sz: "sz = min (min (orderSize (config strat) * 2) (size_l (hd (asks bookB))))
                      (maxPositionSize_c (config strat)
                         - (case getPosition_om ctx b of None \<Rightarrow> 0 | Some p \<Rightarrow> size_p p))"
  shows "evaluate ctx now tokenId orderBook strat =
           (if sz \<le> 0
            then (Inr [], strat\<lparr>stats := (stats strat)\<lparr>evaluations := evaluations (stats strat) + 1,
                                                        noArbFound := noArbFound (stats strat) + 1\<rparr>\<rparr>)
            else (Inr [\<lparr>tokenId_s = b, side_s = BUY, confidence = 1,
                        targetPrice = price_l (hd (asks bookB)), size_s = sz,
                        reason_s = [Txt ''Bregman projection: KL='', Fixed (ln (5/4)) 4,
                                    Txt '' underpriced='', Txt (take 8 b)]\<rparr>],
                  strat\<lparr>stats := (stats strat)\<lparr>evaluations := evaluations (stats strat) + 1,
                                                bregmanArbSignals :=
                                                  bregmanArbSignals (stats strat) + 1\<rparr>\<rparr>))"
proof -
  let ?cfg = "config strat"
  let ?books = "\<lambda>t. if t \<in> set (tokenIds grp) then bookOf ctx tokenId orderBook t else None"
  have neq: "a \<noteq> b" using ba bb ma mb by auto
  have g: "gatherBooks ctx ?cfg now tokenId orderBook (tokenIds grp) Map.empty = Books ?books"
    by (rule gatherBooks_all) (use ts ba bb fa fb in auto)
  have bka: "?books a = Some bookA" and bkb: "?books b = Some bookB"
    using ts ba bb by simp_all
  have bk': "\<forall>t \<in> set (tokenIds grp). \<exists>b. ?books t = Some b \<and> asks b \<noteq> []"
    using ts ba bb aa ab by auto
  have cs: "checkSimpleArb ctx ?cfg grp ?books = Inr []"
    by (rule checkSimpleArb_no_edge[OF bk']) (use noedge ts ba bb in simp)
  have bk2: "\<forall>t \<in> set (tokenIds grp). \<exists>b. ?books t = Some b" using bk' by blast
  define mids where "mids = map (\<lambda>t. midPrice (the (?books t))) (tokenIds grp)"
  have midsv: "mids = [8/10, 2/10]" using ts ba bb ma mb neq by (simp add: mids_def)
  define q where "q = map (\<lambda>p. p / sum_list mids) mids"
  have qv: "q = [4/5, 1/5]" by (simp add: q_def midsv)
  define D where "D = sum_list (map (\<lambda>x. 1 / real (length q) * ln (1 / real (length q) / x)) q)"
  have Dv: "D = ln (5/4)" unfolding D_def qv by (rule kl_80_20_value)
  define i where "i = minProbLoop q (length q)"
  have iv: "i = 1" by (simp add: i_def qv minProbLoop_def)
  have tgt: "tokenIds grp ! i = b" by (simp add: iv ts)
  define cur where "cur = (case getPosition_om ctx (tokenIds grp ! i) of None \<Rightarrow> 0 | Some p \<Rightarrow> size_p p)"
  define book where "book = the (?books (tokenIds grp ! i))"
  have bookv: "book = bookB" unfolding book_def tgt bkb by simp
  have D10: "1/10 \<le> D" using ln_5_4_bounds(1) by (simp add: Dv)
  have mult: "min (D / divergenceThreshold ?cfg) 2 = 2" using D10 by (simp add: thr)
  have conf: "min (D / (divergenceThreshold ?cfg * 2)) 1 = 1" using D10 by (simp add: thr)
  have szeq: "sz = min (min (orderSize ?cfg * min (D / divergenceThreshold ?cfg) 2)
                          (if asks book \<noteq> [] then size_l (hd (asks book)) else 0))
                     (maxPositionSize_c ?cfg - cur)"
    by (simp add: sz mult bookv ab cur_def tgt)
  have ps: "sum_list mids \<noteq> 0" by (simp add: midsv)
  have qpos: "\<forall>x \<in> set q. 0 < x" by (simp add: qv)
  have nlt: "\<not> D < divergenceThreshold ?cfg" using D10 by (simp add: thr)
  have cb: "checkBregmanArb ctx ?cfg grp ?books =
           (if sz \<le> 0 then Inr []
            else Inr [\<lparr>tokenId_s = b, side_s = BUY, confidence = 1,
                       targetPrice = price_l (hd (asks bookB)), size_s = sz,
                       reason_s = [Txt ''Bregman projection: KL='', Fixed (ln (5/4)) 4,
                                   Txt '' underpriced='', Txt (take 8 b)]\<rparr>])"
  proof -
    have "checkBregmanArb ctx ?cfg grp ?books =
           (if sz \<le> 0 then Inr []
            else Inr [\<lparr>tokenId_s = b, side_s = BUY, confidence = 1,
                       targetPrice = price_l (hd (asks bookB)), size_s = sz,
                       reason_s = [Txt ''Bregman projection: KL='', Fixed D 4,
                                   Txt '' underpriced='', Txt (take 8 b)]\<rparr>])"
      using checkBregmanArb_closed(1)[OF bk2 mids_def ps q_def qpos D_def i_def cur_def book_def szeq]
            nlt
      by (simp add: conf tgt bookv)
    then show ?thesis by (simp only: Dv)
  qed
  show ?thesis
    using en grp by (simp add: evaluate_def Let_def g cs cb)
qed

lemma checkBregmanArb_targets_min:
  "(let ts = tokenIds grp;
        mids = map (\<lambda>t. midPrice (the (books t))) ts;
        q = map (\<lambda>p. p / sum_list mids) mids;
        n = length ts;
        D = sum_list (map (\<lambda>x. 1 / real n * ln (1 / real n / x)) q);
        i = minProbLoop q n;
        book = the (books (ts ! i));
        cur = (case getPosition_om ctx (ts ! i) of None \<Rightarrow> 0 | Some p \<Rightarrow> size_p p);
        sz = min (min (orderSize cfg * min (D / divergenceThreshold cfg) 2)
                      (if asks book \<noteq> [] then size_l (hd (asks book)) else 0))
                 (maxPositionSize_c cfg - cur)
    in (\<forall>t \<in> set ts. \<exists>b. books t = Some b) \<and> sum_list mids \<noteq> 0 \<and> (\<forall>x \<in> set q. 0 < x)
       \<and> divergenceThreshold cfg \<noteq> 0 \<and> divergenceThreshold cfg \<le> D \<and> 0 < sz
       \<longrightarrow> i < n \<and> (\<forall>j < n. q ! i \<le> q ! j) \<and> asks book \<noteq> []
           \<and> checkBregmanArb ctx cfg grp books =
                Inr [\<lparr>tokenId_s = ts ! i, side_s = BUY,
                      confidence = min (D / (divergenceThreshold cfg * 2)) 1,
                      targetPrice = price_l (hd (asks book)),
                      size_s = sz,
                      reason_s = [Txt ''Bregman projection: KL='', Fixed D 4,
                                  Txt '' underpriced='', Txt (take 8 (ts ! i))]\<rparr>])"
proof -
  define ts where "ts = tokenIds grp"
  define mids where "mids = map (\<lambda>t. midPrice (the (books t))) (tokenIds grp)"
  define q where "q = map (\<lambda>p. p / sum_list mids) mids"
  define n where "n = length (tokenIds grp)"
  define D where "D = sum_list (map (\<lambda>x. 1 / real n * ln (1 / real n / x)) q)"
  define i where "i = minProbLoop q n"
  define cur where "cur = (case getPosition_om ctx (tokenIds grp ! i) of None \<Rightarrow> 0 | Some p \<Rightarrow> size_p p)"
  define book where "book = the (books (tokenIds grp ! i))"
  define sz where "sz = min (min (orderSize cfg * min (D / divergenceThreshold cfg) 2)
                          (if asks book \<noteq> [] then size_l (hd (asks book)) else 0))
                     (maxPositionSize_c cfg - cur)"
  have len: "length q = n" by (simp add: q_def mids_def n_def)
  have D': "D = sum_list (map (\<lambda>x. 1 / real (length q) * ln (1 / real (length q) / x)) q)"
    by (simp add: D_def len)
  have i': "i = minProbLoop q (length q)" by (simp add: i_def len)
  have main: "i < n \<and> (\<forall>j < n. q ! i \<le> q ! j)
        \<and> asks book \<noteq> []
        \<and> checkBregmanArb ctx cfg grp books =
                Inr [\<lparr>tokenId_s = tokenIds grp ! i, side_s = BUY,
                      confidence = min (D / (divergenceThreshold cfg * 2)) 1,
                      targetPrice = price_l (hd (asks book)),
                      size_s = sz,
                      reason_s = [Txt ''Bregman projection: KL='', Fixed D 4,
                                  Txt '' underpriced='', Txt (take 8 (tokenIds grp ! i))]\<rparr>]"
    if bk: "\<forall>t \<in> set (tokenIds grp). \<exists>b. books t = Some b" and ps: "sum_list mids \<noteq> 0"
      and qpos: "\<forall>x \<in> set q. 0 < x" and ge: "divergenceThreshold cfg \<le> D" and pos: "0 < sz"
  proof -
    note c = checkBregmanArb_closed[OF bk mids_def ps q_def qpos D' i' cur_def book_def sz_def]
    have ne: "asks book \<noteq> []"
    proof
      assume "asks book = []"
      then have "sz \<le> 0" unfolding sz_def by (simp add: min_le_iff_disj)
      with pos show False by simp
    qed
    show ?thesis using c ge pos ne by (simp add: len n_def)
  qed
  show ?thesis
    unfolding Let_def
    using main
    unfolding sz_def book_def cur_def i_def D_def q_def mids_def n_def
    by blast
qed


lemma yes_no_facts:
  "enabled (new_strategy [yes_no] default_config)"
  "tokenToGroup (new_strategy [yes_no] default_config)
     = tokenIndex (marketGroups (new_strategy [yes_no] default_config))"
  "tokenToGroup (new_strategy [yes_no] default_config) ''yes'' = Some yes_no"
  "tokenIds yes_no = [''yes'', ''no'']"
  "feeRate (config (new_strategy [yes_no] default_config)) = 2/100"
  "minEdge (config (new_strategy [yes_no] default_config)) = 1/100"
  "orderSize (config (new_strategy [yes_no] default_config)) = 10"
  "maxPositionSize_c (config (new_strategy [yes_no] default_config)) = 50"
  "maxStalenessMs (config (new_strategy [yes_no] default_config)) = 5000"
  "divergenceThreshold (config (new_strategy [yes_no] default_config)) = 5/100"
  "stats (new_strategy [yes_no] default_config) = zero_stats"
  by (simp_all add: new_strategy_def default_config_def tokenIndex_def yes_no_def)

lemma yes_no_books:
  "bookOf yes_no_ctx ''yes'' yes_book ''yes'' = Some yes_book"
  "bookOf yes_no_ctx ''yes'' yes_book ''no'' = Some no_book"
  "bookOf full_no_ctx ''yes'' yes_book ''yes'' = Some yes_book"
  "bookOf full_no_ctx ''yes'' yes_book ''no'' = Some no_book"
  by (simp_all add: bookOf_def yes_no_ctx_def full_no_ctx_def)

lemma yes_no_quotes:
  "midPrice yes_book = 8/10" "midPrice no_book = 2/10"
  "asks yes_book = [\<lparr>price_l = 81/100, size_l = 30\<rparr>]"
  "asks no_book = [\<lparr>price_l = 21/100, size_l = 30\<rparr>]"
  "timestamp_ob yes_book = 1000" "timestamp_ob no_book = 1000"
  by (simp_all add: yes_book_def no_book_def)

text \<open>
  C5, as stated: a binary group with mid prices 0.80 and 0.20 and a simple-arb edge below
  \<open>min_edge\<close> yields one BUY signal on the 0.20 token. With the books quoted 0.79/0.81
  and 0.19/0.21 (edge \<open>1 - 1.02 \<times> 1.02 < 0.01\<close>) and a position of 50 on \<open>no\<close>, the
  configured maximum, \<open>evaluate\<close> returns no signal and counts \<open>noArbFound\<close>.
\<close>

theorem bregman_no_signal_at_capacity:
  "tokenIds yes_no = [''yes'', ''no'']
   \<and> midPrice yes_book = 8/10 \<and> midPrice no_book = 2/10
   \<and> 1 - (price_l (hd (asks yes_book)) + price_l (hd (asks no_book)))
            * (1 + feeRate default_config) < minEdge default_config
   \<and> divergenceThreshold default_config = 5/100
   \<and> map_option size_p (getPosition_om full_no_ctx ''no'') = Some (maxPositionSize_c default_config)
   \<and> evaluate full_no_ctx 1000 ''yes'' yes_book (new_strategy [yes_no] default_config)
       = (Inr [], (new_strategy [yes_no] default_config)
                    \<lparr>stats := zero_stats\<lparr>evaluations := 1, noArbFound := 1\<rparr>\<rparr>)"
proof -
  let ?strat = "new_strategy [yes_no] default_config"
  have "evaluate full_no_ctx 1000 ''yes'' yes_book ?strat =
           (if (0::real) \<le> 0
            then (Inr [], ?strat\<lparr>stats := (stats ?strat)\<lparr>evaluations := evaluations (stats ?strat) + 1,
                                                        noArbFound := noArbFound (stats ?strat) + 1\<rparr>\<rparr>)
            else (Inr [\<lparr>tokenId_s = ''no'', side_s = BUY, confidence = 1,
                        targetPrice = price_l (hd (asks no_book)), size_s = 0,
                        reason_s = [Txt ''Bregman projection: KL='', Fixed (ln (5/4)) 4,
                                    Txt '' underpriced='', Txt (take 8 ''no'')]\<rparr>],
                  ?strat\<lparr>stats := (stats ?strat)\<lparr>evaluations := evaluations (stats ?strat) + 1,
                                                bregmanArbSignals :=
                                                  bregmanArbSignals (stats ?strat) + 1\<rparr>\<rparr>))"
    by (rule evaluate_binary_80_20[OF yes_no_facts(1-4) yes_no_books(3,4)])
       (simp_all add: yes_no_facts yes_no_quotes full_no_ctx_def)
  then have ev: "evaluate full_no_ctx 1000 ''yes'' yes_book ?strat
       = (Inr [], ?strat\<lparr>stats := zero_stats\<lparr>evaluations := 1, noArbFound := 1\<rparr>\<rparr>)"
    by (simp add: yes_no_facts zero_stats_def)
  have extra:
    "1 - (price_l (hd (asks yes_book)) + price_l (hd (asks no_book)))
            * (1 + feeRate default_config) < minEdge default_config"
    "divergenceThreshold default_config = 5/100"
    "map_option size_p (getPosition_om full_no_ctx ''no'') = Some (maxPositionSize_c default_config)"
    by (simp_all add: yes_no_quotes default_config_def full_no_ctx_def)
  show ?thesis
    by (intro conjI) (rule yes_no_facts(4) yes_no_quotes(1) yes_no_quotes(2) extra ev)+
qed

text \<open>
  C5, amended. For a binary group whose two books have mid prices 0.80 and 0.20, both
  with a non-empty ask side, whose simple-arb edge is below \<open>min_edge\<close>, under a
  divergence threshold of 0.05: the normalized probabilities are \<open>(0.8, 0.2)\<close>, the
  divergence \<open>D = \<Sum> u \<times> ln(u / q\<^sub>i)\<close> lies between 0.2231 and 0.2232, hence is at least
  0.05, and, provided the computed size (the least of twice the base size, the best-ask
  size of the 0.20 token and its remaining capacity) is positive, \<open>evaluate\<close> returns
  exactly one BUY signal, on the 0.20 token, at its best ask price, with confidence
  \<open>min(D / (2 \<times> threshold), 1)\<close>. In general, for any group whose books are at hand
  and whose probabilities are positive, whenever \<open>D\<close> reaches the threshold and the
  computed size is positive, \<open>checkBregmanArb\<close> returns a single BUY signal on a token
  of minimal implied probability, at its best ask price.
\<close>

theorem bregman_binary_signal:
  assumes en: "enabled strat"
    and idx: "tokenToGroup strat = tokenIndex (marketGroups strat)"
    and grp: "tokenToGroup strat tokenId = Some grp"
    and ts: "tokenIds grp = [a, b]"
    and ba: "bookOf ctx tokenId orderBook a = Some bookA"
    and bb: "bookOf ctx tokenId orderBook b = Some bookB"
    and fa: "real_of_int (now - timestamp_ob bookA) \<le> maxStalenessMs (config strat)"
    and fb: "real_of_int (now - timestamp_ob bookB) \<le> maxStalenessMs (config strat)"
    and ma: "midPrice bookA = 8/10" and mb: "midPrice bookB = 2/10"
    and aa: "asks bookA \<noteq> []" and ab: "asks bookB \<noteq> []"
    and noedge: "1 - (price_l (hd (asks bookA)) + price_l (hd (asks bookB)))
                       * (1 + feeRate (config strat)) < minEdge (config strat)"
    and thr: "divergenceThreshold (config strat) = 5/100"
    and D: "D = 1/2 * ln ((1/2) / (8/10)) + 1/2 * ln ((1/2) / (2/10))"
    and sz: "sz = min (min (orderSize (config strat) * min (D / (5/100)) 2)
                          (size_l (hd (asks bookB))))
                      (maxPositionSize_c (config strat)
                         - (case getPosition_om ctx b of None \<Rightarrow> 0 | Some p \<Rightarrow> size_p p))"
    and pos: "0 < sz"
  shows "map (\<lambda>p. p / foldl (+) 0 [8/10, 2/10]) [8/10, 2/10 :: real] = [8/10, 2/10]
       \<and> klLoop (1/2) [8/10, 2/10] 0 = Some D
       \<and> 2231/10000 \<le> D \<and> D \<le> 2232/10000 \<and> 5/100 \<le> D
       \<and> evaluate ctx now tokenId orderBook strat =
           (Inr [\<lparr>tokenId_s = b, side_s = BUY,
                   confidence = min (D / (2 * (5/100))) 1,
                   targetPrice = price_l (hd (asks bookB)), size_s = sz,
                   reason_s = [Txt ''Bregman projection: KL='', Fixed D 4,
                               Txt '' underpriced='', Txt (take 8 b)]\<rparr>],
            strat\<lparr>stats := (stats strat)\<lparr>evaluations := evaluations (stats strat) + 1,
                                          bregmanArbSignals :=
                                            bregmanArbSignals (stats strat) + 1\<rparr>\<rparr>)
       \<and> (\<forall>ctx' cfg grp' books.
            let ts = tokenIds grp';
                mids = map (\<lambda>t. midPrice (the (books t))) ts;
                q = map (\<lambda>p. p / sum_list mids) mids;
                n = length ts;
                D' = sum_list (map (\<lambda>x. 1 / real n * ln (1 / real n / x)) q);
                i = minProbLoop q n;
                book = the (books (ts ! i));
                cur = (case getPosition_om ctx' (ts ! i) of None \<Rightarrow> 0 | Some p \<Rightarrow> size_p p);
                sz' = min (min (orderSize cfg * min (D' / divergenceThreshold cfg) 2)
                              (if asks book \<noteq> [] then size_l (hd (asks book)) else 0))
                         (maxPositionSize_c cfg - cur)
            in (\<forall>t \<in> set ts. \<exists>b. books t = Some b) \<and> sum_list mids \<noteq> 0
               \<and> (\<forall>x \<in> set q. 0 < x) \<and> divergenceThreshold cfg \<noteq> 0
               \<and> divergenceThreshold cfg \<le> D' \<and> 0 < sz'
               \<longrightarrow> i < n \<and> (\<forall>j < n. q ! i \<le> q ! j) \<and> asks book \<noteq> []
                   \<and> checkBregmanArb ctx' cfg grp' books =
                        Inr [\<lparr>tokenId_s = ts ! i, side_s = BUY,
                              confidence = min (D' / (divergenceThreshold cfg * 2)) 1,
                              targetPrice = price_l (hd (asks book)),
                              size_s = sz',
                              reason_s = [Txt ''Bregman projection: KL='', Fixed D' 4,
                                          Txt '' underpriced='', Txt (take 8 (ts ! i))]\<rparr>])"
proof -
  have Dv: "D = ln (5/4)" using kl_binary_80_20 by (simp add: D)
  have b1: "2231/10000 \<le> D" and b2: "D \<le> 2232/10000"
    using ln_5_4_bounds by (simp_all add: Dv)
  have mult: "min (D / (5/100)) 2 = 2" using b1 by simp
  have conf: "min (D / (2 * (5/100))) 1 = 1" using b1 by simp
  have sz2: "sz = min (min (orderSize (config strat) * 2) (size_l (hd (asks bookB))))
                      (maxPositionSize_c (config strat)
                         - (case getPosition_om ctx b of None \<Rightarrow> 0 | Some p \<Rightarrow> size_p p))"
    using sz by (simp only: mult)
  have q: "map (\<lambda>p. p / foldl (+) 0 [8/10, 2/10]) [8/10, 2/10 :: real] = [8/10, 2/10]"
    by simp
  have kl: "klLoop (1/2) [8/10, 2/10] 0 = Some D"
    by (simp add: D)
  have ev: "evaluate ctx now tokenId orderBook strat =
           (Inr [\<lparr>tokenId_s = b, side_s = BUY,
                   confidence = min (D / (2 * (5/100))) 1,
                   targetPrice = price_l (hd (asks bookB)), size_s = sz,
                   reason_s = [Txt ''Bregman projection: KL='', Fixed D 4,
                               Txt '' underpriced='', Txt (take 8 b)]\<rparr>],
            strat\<lparr>stats := (stats strat)\<lparr>evaluations := evaluations (stats strat) + 1,
                                          bregmanArbSignals :=
                                            bregmanArbSignals (stats strat) + 1\<rparr>\<rparr>)"
  proof -
    have E: "evaluate ctx now tokenId orderBook strat =
           (Inr [\<lparr>tokenId_s = b, side_s = BUY, confidence = 1,
                   targetPrice = price_l (hd (asks bookB)), size_s = sz,
                   reason_s = [Txt ''Bregman projection: KL='', Fixed (ln (5/4)) 4,
                               Txt '' underpriced='', Txt (take 8 b)]\<rparr>],
            strat\<lparr>stats := (stats strat)\<lparr>evaluations := evaluations (stats strat) + 1,
                                          bregmanArbSignals :=
                                            bregmanArbSignals (stats strat) + 1\<rparr>\<rparr>)"
      using evaluate_binary_80_20[OF en idx grp ts ba bb fa fb ma mb aa ab noedge thr sz2] pos
      by simp
    show ?thesis unfolding conf unfolding Dv by (rule E)
  qed
  have b3: "5/100 \<le> D" using b1 by simp
  show ?thesis
    by (intro conjI allI) (rule q kl b1 b2 b3 ev checkBregmanArb_targets_min)+
qed

theorem bregman_binary_signal_witness:
  "evaluate yes_no_ctx 1000 ''yes'' yes_book (new_strategy [yes_no] default_config)
   = (Inr [\<lparr>tokenId_s = ''no'', side_s = BUY, confidence = 1, targetPrice = 21/100,
            size_s = 20,
            reason_s = [Txt ''Bregman projection: KL='',
                        Fixed (1/2 * ln ((1/2) / (8/10)) + 1/2 * ln ((1/2) / (2/10))) 4,
                        Txt '' underpriced='', Txt ''no'']\<rparr>],
      (new_strategy [yes_no] default_config)
        \<lparr>stats := zero_stats\<lparr>evaluations := 1, bregmanArbSignals := 1\<rparr>\<rparr>)"
proof -
  let ?strat = "new_strategy [yes_no] default_config"
  define D :: real where "D = 1/2 * ln ((1/2) / (8/10)) + 1/2 * ln ((1/2) / (2/10))"
  define sz where "sz = min (min (orderSize (config ?strat) * min (D / (5/100)) 2)
                          (size_l (hd (asks no_book))))
                      (maxPositionSize_c (config ?strat)
                         - (case getPosition_om yes_no_ctx ''no'' of None \<Rightarrow> 0 | Some p \<Rightarrow> size_p p))"
  have Dv: "D = ln (5/4)" using kl_binary_80_20 by (simp add: D_def)
  have D10: "1/10 \<le> D" using ln_5_4_bounds(1) by (simp add: Dv)
  have szv: "sz = 20"
    using D10 by (simp add: sz_def yes_no_facts yes_no_quotes yes_no_ctx_def)
  have pos: "0 < sz" by (simp add: szv)
  have conf: "min (D / (2 * (5/100))) 1 = 1" using D10 by simp
  have fr: "real_of_int (1000 - timestamp_ob yes_book) \<le> maxStalenessMs (config ?strat)"
      "real_of_int (1000 - timestamp_ob no_book) \<le> maxStalenessMs (config ?strat)"
    by (simp_all add: yes_no_facts yes_no_quotes)
  have ne: "asks yes_book \<noteq> []" "asks no_book \<noteq> []"
    by (simp_all add: yes_no_quotes)
  have noedge: "1 - (price_l (hd (asks yes_book)) + price_l (hd (asks no_book)))
                       * (1 + feeRate (config ?strat)) < minEdge (config ?strat)"
    by (simp add: yes_no_facts yes_no_quotes)
  note t = bregman_binary_signal[OF yes_no_facts(1-4) yes_no_books(1,2) fr yes_no_quotes(1,2) ne noedge
              yes_no_facts(10) D_def sz_def pos]
  note ev = t[THEN conjunct2, THEN conjunct2, THEN conjunct2, THEN conjunct2, THEN conjunct2,
              THEN conjunct1]
  have "evaluate yes_no_ctx 1000 ''yes'' yes_book ?strat =
           (Inr [\<lparr>tokenId_s = ''no'', side_s = BUY,
                   confidence = min (D / (2 * (5/100))) 1,
                   targetPrice = price_l (hd (asks no_book)), size_s = sz,
                   reason_s = [Txt ''Bregman projection: KL='', Fixed D 4,
                               Txt '' underpriced='', Txt (take 8 ''no'')]\<rparr>],
            ?strat\<lparr>stats := (stats ?strat)\<lparr>evaluations := evaluations (stats ?strat) + 1,
                                          bregmanArbSignals :=
                                            bregmanArbSignals (stats ?strat) + 1\<rparr>\<rparr>)"
    by (rule ev)
  then show ?thesis
    unfolding conf szv
    by (simp add: yes_no_facts yes_no_quotes zero_stats_def D_def)
qed

end
